theory Spec2Isabelle
  imports Complex_Main
begin

section \<open>Host geometry values\<close>

text \<open>
  The four scripts run inside a CAD host and only see its objects through a handful of
  attributes and methods. Each host value is modelled by a record holding exactly the
  attributes the scripts read. Coordinates and parameters are the host's floating-point
  numbers; they are modelled as exact reals, so no statement below is about rounding.
\<close>

record Point3d =
  X :: real
  Y :: real
  Z :: real

type_synonym Vector3d = Point3d

definition pt_sub :: "Point3d \<Rightarrow> Point3d \<Rightarrow> Vector3d" where
  \<comment> \<open>\<open>p - q\<close>\<close>
  "pt_sub p q = \<lparr>X = X p - X q, Y = Y p - Y q, Z = Z p - Z q\<rparr>"

definition pt_add :: "Point3d \<Rightarrow> Vector3d \<Rightarrow> Point3d" where
  \<comment> \<open>\<open>p + v\<close>\<close>
  "pt_add p v = \<lparr>X = X p + X v, Y = Y p + Y v, Z = Z p + Z v\<rparr>"

definition vec_mul :: "Vector3d \<Rightarrow> real \<Rightarrow> Vector3d" where
  \<comment> \<open>\<open>v * t\<close>\<close>
  "vec_mul v t = \<lparr>X = X v * t, Y = Y v * t, Z = Z v * t\<rparr>"

record Interval =
  IMin :: real    \<comment> \<open>\<open>.Min\<close>\<close>
  IMax :: real    \<comment> \<open>\<open>.Max\<close>\<close>

record Cylinder =
  cyl_Radius :: real
  cyl_Axis :: Vector3d
  cyl_Center :: Point3d

record Cone =
  cone_Radius :: real
  cone_AngleInDegrees :: real
  cone_ApexPoint :: Point3d
  cone_Axis :: Vector3d

record Sphere =
  sphere_Radius :: real

text \<open>
  A surface answers \<open>GetType().Name\<close> and the three analytic fits. A fit returns a
  pair (flag, primitive); the primitive is read only when the flag is set, so the pair is
  an option.
\<close>

record Surface =
  TypeName :: string
  TryGetCylinder :: "Cylinder option"
  TryGetCone :: "Cone option"
  TryGetSphere :: "Sphere option"

text \<open>A face of a polysurface: every attribute the scripts use is present.\<close>

record BrepFace =
  UnderlyingSurface :: Surface
  FaceDomain :: "nat \<Rightarrow> Interval"    \<comment> \<open>\<open>.Domain(i)\<close>\<close>
  PointAt :: "real \<Rightarrow> real \<Rightarrow> Point3d"
  IsPlanar :: bool

record Brep =
  Faces :: "BrepFace list"

text \<open>
  What \<open>rs.coercesurface\<close> returns: an object that is a surface itself and may or may
  not carry the face attributes; the scripts probe them with \<open>hasattr\<close>, so each is
  optional (\<open>None\<close>: the attribute is absent).
\<close>

record SurfaceGeo =
  as_Surface :: Surface
  attr_PointAt :: "(real \<Rightarrow> real \<Rightarrow> Point3d) option"
  attr_Domain :: "(nat \<Rightarrow> Interval) option"
  attr_IsPlanar :: "bool option"

text \<open>A selected object: its type code and what the two coercions return for it.\<close>

record RhinoObject =
  ObjectType :: int
  coercebrep :: "Brep option"
  coercesurface :: "SurfaceGeo option"

datatype Geometry = GBrep Brep | GSurface SurfaceGeo

definition coerce :: "int \<Rightarrow> RhinoObject \<Rightarrow> Geometry option" where
  \<comment> \<open>\<open>geo = rs.coercebrep(obj) if t == 16 else rs.coercesurface(obj)\<close>\<close>
  "coerce t obj =
     (if t = 16 then map_option GBrep (coercebrep obj)
      else map_option GSurface (coercesurface obj))"

text \<open>
  The local variable \<open>face\<close> of scripts 02 to 04 when it is not \<open>None\<close>: a face of
  a polysurface, or the coerced surface itself when that has \<open>PointAt\<close>.
\<close>

record FaceRef =
  face_Domain :: "(nat \<Rightarrow> Interval) option"
  face_PointAt :: "real \<Rightarrow> real \<Rightarrow> Point3d"
  face_IsPlanar :: "bool option"

definition of_BrepFace :: "BrepFace \<Rightarrow> FaceRef" where
  "of_BrepFace f =
     \<lparr>face_Domain = Some (FaceDomain f), face_PointAt = PointAt f,
      face_IsPlanar = Some (IsPlanar f)\<rparr>"

definition of_SurfaceGeo :: "SurfaceGeo \<Rightarrow> FaceRef option" where
  \<comment> \<open>\<open>face = geo if hasattr(geo, 'PointAt') else None\<close>\<close>
  "of_SurfaceGeo g =
     (case attr_PointAt g of
        Some p \<Rightarrow>
          Some \<lparr>face_Domain = attr_Domain g, face_PointAt = p,
                face_IsPlanar = attr_IsPlanar g\<rparr>
      | None \<Rightarrow> None)"

datatype error = IndexError | AttributeError

text \<open>
  The annotation sink. \<open>rs.AddLine\<close> answers with the identifier of the new line, or
  with nothing. Its answer may depend on everything done to the document before, so the
  host is a function of the calls made so far; every call is logged with its answer.
  Of the console output, the log keeps the line that names the type of the surface.
\<close>

type_synonym Guid = nat

datatype label = CONE | CYLINDER | PLANE | COMPLEX_SURFACE string | OTHER_TYPE

datatype call =
    Print_call label
  | AddLine_call Point3d Point3d "Guid option"
  | ObjectColor_call Guid "int list"

type_synonym Host = "call list \<Rightarrow> Point3d \<Rightarrow> Point3d \<Rightarrow> Guid option"

definition rs_AddLine :: "Host \<Rightarrow> Point3d \<Rightarrow> Point3d \<Rightarrow> call list \<Rightarrow> Guid option \<times> call list" where
  "rs_AddLine host s e cs = (let line_id = host cs s e in (line_id, cs @ [AddLine_call s e line_id]))"

definition rs_ObjectColor :: "Guid \<Rightarrow> int list \<Rightarrow> call list \<Rightarrow> call list" where
  "rs_ObjectColor line_id color cs = cs @ [ObjectColor_call line_id color]"

section \<open>Script 01: surface type statistics of a polysurface\<close>

record Counters =
  cylinders :: nat
  cones :: nat
  planes :: nat
  nurbs :: nat
  others :: nat
  cylinders_above_threshold :: nat

definition DIAMETER_THRESHOLD :: real where
  "DIAMETER_THRESHOLD = 3.2"

definition zero_counters :: Counters where
  "zero_counters =
     \<lparr>cylinders = 0, cones = 0, planes = 0, nurbs = 0, others = 0,
      cylinders_above_threshold = 0\<rparr>"

definition count_face :: "BrepFace \<Rightarrow> Counters \<Rightarrow> Counters" where
  \<comment> \<open>the body of the face loop: one \<open>if\<close>/\<open>elif\<close> chain\<close>
  "count_face face c =
     (let surf = UnderlyingSurface face in
      case TryGetCylinder surf of
        Some cyl \<Rightarrow>
          (let c1 = c\<lparr>cylinders := cylinders c + 1\<rparr>;
               diameter = cyl_Radius cyl * 2
           in if diameter > DIAMETER_THRESHOLD
              then c1\<lparr>cylinders_above_threshold := cylinders_above_threshold c1 + 1\<rparr>
              else c1)
      | None \<Rightarrow>
          (case TryGetCone surf of
             Some cone \<Rightarrow> c\<lparr>cones := cones c + 1\<rparr>
           | None \<Rightarrow>
               if IsPlanar face then c\<lparr>planes := planes c + 1\<rparr>
               else if TypeName surf \<in> set [''NurbsSurface'', ''SumSurface'', ''RevSurface'']
               then c\<lparr>nurbs := nurbs c + 1\<rparr>
               else c\<lparr>others := others c + 1\<rparr>))"

definition analyze_faces :: "Brep \<Rightarrow> Counters" where
  \<comment> \<open>\<open>for face_idx in range(total_faces): face = geo.Faces[face_idx]; ...\<close>\<close>
  "analyze_faces geo =
     (let total_faces = length (Faces geo) in
      fold (\<lambda>face_idx c. count_face (Faces geo ! face_idx) c) [0..<total_faces]
        zero_counters)"

definition total_count :: "Counters \<Rightarrow> nat" where
  \<comment> \<open>the printed total\<close>
  "total_count c = cylinders c + cones c + planes c + nurbs c + others c"

definition analyze_brep :: "RhinoObject list \<Rightarrow> Counters option" where
  \<comment> \<open>the whole script; \<open>None\<close>: no statistics are printed\<close>
  "analyze_brep sel =
     (case sel of
        [] \<Rightarrow> None
      | obj # _ \<Rightarrow>
          if ObjectType obj = 16 then
            (case coercebrep obj of
               Some geo \<Rightarrow> Some (analyze_faces geo)
             | None \<Rightarrow> None)
          else None)"

section \<open>Script 02: inspection of one surface\<close>

definition get_surface :: "Geometry \<Rightarrow> error + Surface \<times> FaceRef option" where
  \<comment> \<open>scripts 02 and 03. \<open>geo\<close> is a polysurface exactly when \<open>t == 16\<close>, and a
      polysurface has \<open>Faces\<close>; \<open>geo.Faces[0]\<close> raises on an empty list\<close>
  "get_surface geo =
     (case geo of
        GBrep b \<Rightarrow>
          (case Faces b of
             [] \<Rightarrow> Inl IndexError
           | face # _ \<Rightarrow> Inr (UnderlyingSurface face, Some (of_BrepFace face)))
      | GSurface g \<Rightarrow> Inr (as_Surface g, of_SurfaceGeo g))"

record Report =
  is_cyl :: bool
  is_cone :: bool
  is_sphere :: bool
  is_planar :: bool
  SUMMARY :: label

definition inspect :: "Surface \<Rightarrow> FaceRef option \<Rightarrow> Report" where
  \<comment> \<open>the TYPE CHECK section and the SUMMARY line\<close>
  "inspect surf face =
     (let surf_type = TypeName surf;
          is_cyl = (TryGetCylinder surf \<noteq> None);
          is_cone = (TryGetCone surf \<noteq> None);
          is_sphere = (TryGetSphere surf \<noteq> None);
          is_planar =
            (case face of
               Some f \<Rightarrow> (case face_IsPlanar f of Some b \<Rightarrow> b | None \<Rightarrow> False)
             | None \<Rightarrow> False)
      in \<lparr>is_cyl = is_cyl, is_cone = is_cone, is_sphere = is_sphere, is_planar = is_planar,
          SUMMARY =
            (if is_cone then CONE
             else if is_cyl then CYLINDER
             else if is_planar then PLANE
             else COMPLEX_SURFACE surf_type)\<rparr>)"

definition check_surface :: "RhinoObject list \<Rightarrow> error + Report option" where
  \<comment> \<open>the whole script; \<open>Inr None\<close>: no geometry is inspected\<close>
  "check_surface sel =
     (case sel of
        [] \<Rightarrow> Inr None
      | obj # _ \<Rightarrow>
          (let t = ObjectType obj in
           if t = 8 \<or> t = 16 then
             (case coerce t obj of
                Some geo \<Rightarrow>
                  (case get_surface geo of
                     Inl err \<Rightarrow> Inl err
                   | Inr (surf, face) \<Rightarrow> Inr (Some (inspect surf face)))
              | None \<Rightarrow> Inr None)
           else Inr None))"

section \<open>Scripts 03 and 04: axis lines\<close>

definition cylinder_axis_line ::
  "Cylinder \<Rightarrow> (nat \<Rightarrow> Interval) \<Rightarrow> (real \<Rightarrow> real \<Rightarrow> Point3d) \<Rightarrow> Point3d \<times> Point3d" where
  \<comment> \<open>the statements from \<open>u_mid\<close> to the end points, the same in scripts 03 and 04;
      the arguments are \<open>cyl\<close>, \<open>face.Domain\<close> and \<open>face.PointAt\<close>\<close>
  "cylinder_axis_line cyl domain point_at =
     (let axis = cyl_Axis cyl;
          cyl_center = cyl_Center cyl;
          u_mid = (IMin (domain 0) + IMax (domain 0)) / 2;
          v_min = IMin (domain 1);
          v_max = IMax (domain 1);
          p1 = point_at u_mid v_min;
          p2 = point_at u_mid v_max;
          v1 = pt_sub p1 cyl_center;
          v2 = pt_sub p2 cyl_center;
          t1 = X v1 * X axis + Y v1 * Y axis + Z v1 * Z axis;
          t2 = X v2 * X axis + Y v2 * Y axis + Z v2 * Z axis;
          start = pt_add cyl_center (vec_mul axis t1);
          end = pt_add cyl_center (vec_mul axis t2)
      in (start, end))"

definition create_line_cylinder :: "Host \<Rightarrow> RhinoObject list \<Rightarrow> error + call list" where
  \<comment> \<open>script 03; the result is the log of host calls. \<open>face.Domain\<close> on an object
      without that attribute raises\<close>
  "create_line_cylinder host sel =
     (case sel of
        [] \<Rightarrow> Inr []
      | obj # _ \<Rightarrow>
          (case coerce (ObjectType obj) obj of
             Some geo \<Rightarrow>
               (case get_surface geo of
                  Inl err \<Rightarrow> Inl err
                | Inr (surf, face) \<Rightarrow>
                    (case (TryGetCylinder surf, face) of
                       (Some cyl, Some f) \<Rightarrow>
                         (case face_Domain f of
                            None \<Rightarrow> Inl AttributeError
                          | Some domain \<Rightarrow>
                              (let (start, end) = cylinder_axis_line cyl domain (face_PointAt f);
                                   (line_id, cs) = rs_AddLine host start end []
                               in case line_id of
                                    Some g \<Rightarrow> Inr (rs_ObjectColor g [0, 255, 0] cs)
                                  | None \<Rightarrow> Inr cs))
                     | _ \<Rightarrow> Inr []))
           | None \<Rightarrow> Inr []))"

record Batch =
  calls :: "call list"
  lines_created :: nat

definition say :: "label \<Rightarrow> Batch \<Rightarrow> Batch" where
  "say l st = st\<lparr>calls := calls st @ [Print_call l]\<rparr>"

definition add_colored_line :: "Host \<Rightarrow> Point3d \<Rightarrow> Point3d \<Rightarrow> int list \<Rightarrow> Batch \<Rightarrow> Batch" where
  \<comment> \<open>\<open>ln = rs.AddLine(s, e)\<close> (here \<open>line_id\<close>), then under \<open>if ln:\<close> the colour and the counter\<close>
  "add_colored_line host s e color st =
     (let (line_id, cs) = rs_AddLine host s e (calls st)
      in case line_id of
           Some g \<Rightarrow>
             \<lparr>calls = rs_ObjectColor g color cs, lines_created = lines_created st + 1\<rparr>
         | None \<Rightarrow> st\<lparr>calls := cs\<rparr>)"

definition get_surface_batch :: "Geometry \<Rightarrow> error + Surface \<times> FaceRef option" where
  \<comment> \<open>script 04 also asks for \<open>geo.Faces.Count > 0\<close>. With no face \<open>surf\<close> is the
      polysurface itself, which has neither \<open>PointAt\<close> nor \<open>TryGetCylinder\<close>: the fit
      that follows raises\<close>
  "get_surface_batch geo =
     (case geo of
        GBrep b \<Rightarrow>
          (if length (Faces b) > 0
           then (case Faces b of
                   face # _ \<Rightarrow> Inr (UnderlyingSurface face, Some (of_BrepFace face))
                 | [] \<Rightarrow> Inl IndexError)
           else Inl AttributeError)
      | GSurface g \<Rightarrow> Inr (as_Surface g, of_SurfaceGeo g))"

definition cone_axis_line :: "Cone \<Rightarrow> FaceRef option \<Rightarrow> Point3d \<times> Point3d" where
  \<comment> \<open>the cone branch of script 04, from the face centre to \<open>s\<close> and \<open>e\<close>\<close>
  "cone_axis_line cone face =
     (let c =
            (case face of
               Some f \<Rightarrow>
                 (case face_Domain f of
                    Some domain \<Rightarrow>
                      (let u = (IMin (domain 0) + IMax (domain 0)) / 2;
                           v = (IMin (domain 1) + IMax (domain 1)) / 2
                       in face_PointAt f u v)
                  | None \<Rightarrow> cone_ApexPoint cone)
             | None \<Rightarrow> cone_ApexPoint cone);
          ax = cone_Axis cone;
          s = pt_sub c (vec_mul ax 2.5);
          e = pt_add c (vec_mul ax 2.5)
      in (s, e))"

definition process_surface :: "Host \<Rightarrow> RhinoObject \<Rightarrow> Batch \<Rightarrow> error + Batch" where
  \<comment> \<open>the body of the loop over the selection\<close>
  "process_surface host obj st =
     (let t = ObjectType obj in
      if t = 8 \<or> t = 16 then
        (case coerce t obj of
           Some geo \<Rightarrow>
             (case get_surface_batch geo of
                Inl err \<Rightarrow> Inl err
              | Inr (surf, face) \<Rightarrow>
                  (case TryGetCone surf of
                     Some cone \<Rightarrow>
                       (let (s, e) = cone_axis_line cone face
                        in Inr (add_colored_line host s e [255, 0, 0] (say CONE st)))
                   | None \<Rightarrow>
                       (case TryGetCylinder surf of
                          Some cyl \<Rightarrow>
                            (case face of
                               Some f \<Rightarrow>
                                 (case face_Domain f of
                                    None \<Rightarrow> Inl AttributeError
                                  | Some domain \<Rightarrow>
                                      (let (s, e) = cylinder_axis_line cyl domain (face_PointAt f)
                                       in Inr (add_colored_line host s e [0, 255, 0]
                                                 (say CYLINDER st))))
                             | None \<Rightarrow> Inr (say CYLINDER st))
                        | None \<Rightarrow> Inr (say OTHER_TYPE st))))
         | None \<Rightarrow> Inr st)
      else Inr st)"

fun process_all :: "Host \<Rightarrow> RhinoObject list \<Rightarrow> Batch \<Rightarrow> error + Batch" where
  "process_all host [] st = Inr st"
| "process_all host (obj # sel) st =
     (case process_surface host obj st of
        Inl err \<Rightarrow> Inl err
      | Inr st' \<Rightarrow> process_all host sel st')"

definition batch_process :: "Host \<Rightarrow> RhinoObject list \<Rightarrow> error + Batch" where
  \<comment> \<open>script 04: \<open>lines_created = 0\<close>, then the loop; an exception ends the run\<close>
  "batch_process host sel = process_all host sel \<lparr>calls = [], lines_created = 0\<rparr>"

section \<open>The classifier of the specification\<close>

text \<open>
  The specification's classifier, written from its words: the cylinder fit first, then the
  cone fit, then the planarity predicate, then the kind name against the recognised
  freeform representations, otherwise Other. The code is compared with it below.
\<close>

datatype tag = TagCylinder | TagCone | TagSphere | TagPlane | TagFreeform string | TagOther

definition spec_classify :: "BrepFace \<Rightarrow> tag" where
  "spec_classify face =
     (if TryGetCylinder (UnderlyingSurface face) \<noteq> None then TagCylinder
      else if TryGetCone (UnderlyingSurface face) \<noteq> None then TagCone
      else if IsPlanar face then TagPlane
      else if TypeName (UnderlyingSurface face) \<in> {''NurbsSurface'', ''SumSurface'', ''RevSurface''}
      then TagFreeform (TypeName (UnderlyingSurface face))
      else TagOther)"

definition is_freeform :: "tag \<Rightarrow> bool" where
  "is_freeform t = (case t of TagFreeform _ \<Rightarrow> True | _ \<Rightarrow> False)"

definition above_threshold :: "BrepFace \<Rightarrow> bool" where
  "above_threshold face =
     (case TryGetCylinder (UnderlyingSurface face) of
        Some cyl \<Rightarrow> 2 * cyl_Radius cyl > 3.2
      | None \<Rightarrow> False)"

section \<open>Sample geometry\<close>

text \<open>
  A cylinder of radius \<open>r\<close> about the z axis trimmed to \<open>v0 \<le> v \<le> v1\<close>, a cone, a
  plane and a freeform patch, used where a statement is evaluated on concrete input.
\<close>
definition origin :: Point3d where
  "origin = \<lparr>X = 0, Y = 0, Z = 0\<rparr>"

definition z_axis :: Vector3d where
  "z_axis = \<lparr>X = 0, Y = 0, Z = 1\<rparr>"

definition cylinder_surface :: "real \<Rightarrow> Surface" where
  "cylinder_surface r =
     \<lparr>TypeName = ''RevSurface'',
      TryGetCylinder = Some \<lparr>cyl_Radius = r, cyl_Axis = z_axis, cyl_Center = origin\<rparr>,
      TryGetCone = None, TryGetSphere = None\<rparr>"

definition cylinder_face :: "real \<Rightarrow> real \<Rightarrow> real \<Rightarrow> BrepFace" where
  "cylinder_face r v0 v1 =
     \<lparr>UnderlyingSurface = cylinder_surface r,
      FaceDomain = (\<lambda>i. if i = 0 then \<lparr>IMin = 0, IMax = 2 * pi\<rparr> else \<lparr>IMin = v0, IMax = v1\<rparr>),
      PointAt = (\<lambda>u v. \<lparr>X = r * cos u, Y = r * sin u, Z = v\<rparr>),
      IsPlanar = False\<rparr>"

definition cone_surface :: Surface where
  "cone_surface =
     \<lparr>TypeName = ''RevSurface'', TryGetCylinder = None,
      TryGetCone = Some \<lparr>cone_Radius = 1, cone_AngleInDegrees = 45, cone_ApexPoint = origin,
                         cone_Axis = z_axis\<rparr>,
      TryGetSphere = None\<rparr>"

definition cone_face :: BrepFace where
  "cone_face =
     \<lparr>UnderlyingSurface = cone_surface,
      FaceDomain = (\<lambda>i. if i = 0 then \<lparr>IMin = 0, IMax = 2 * pi\<rparr> else \<lparr>IMin = 0, IMax = 1\<rparr>),
      PointAt = (\<lambda>u v. \<lparr>X = v * cos u, Y = v * sin u, Z = v\<rparr>),
      IsPlanar = False\<rparr>"

definition plane_face :: BrepFace where
  "plane_face =
     \<lparr>UnderlyingSurface =
        \<lparr>TypeName = ''PlaneSurface'', TryGetCylinder = None, TryGetCone = None,
         TryGetSphere = None\<rparr>,
      FaceDomain = (\<lambda>i. \<lparr>IMin = 0, IMax = 1\<rparr>),
      PointAt = (\<lambda>u v. \<lparr>X = u, Y = v, Z = 0\<rparr>),
      IsPlanar = True\<rparr>"

definition freeform_face :: BrepFace where
  "freeform_face =
     \<lparr>UnderlyingSurface =
        \<lparr>TypeName = ''NurbsSurface'', TryGetCylinder = None, TryGetCone = None,
         TryGetSphere = None\<rparr>,
      FaceDomain = (\<lambda>i. \<lparr>IMin = 0, IMax = 1\<rparr>),
      PointAt = (\<lambda>u v. \<lparr>X = u, Y = v, Z = u * v\<rparr>),
      IsPlanar = False\<rparr>"

definition example_solid :: Brep where
  "example_solid =
     \<lparr>Faces = [cylinder_face 1 0 10, cylinder_face 2 0 10, cylinder_face 3 0 10,
               cone_face, plane_face, plane_face]\<rparr>"

section \<open>The axis segments of the specification\<close>

text \<open>
  The specification's cylinder segment, written from its words: the two boundary points
  are the face at the midpoint of the U domain and at the lower and the upper end of the
  V domain; each is projected on the axis by the dot product with the axis direction,
  taken from the centre; the segment runs from the first projection to the second.
\<close>

definition dot :: "Vector3d \<Rightarrow> Vector3d \<Rightarrow> real" where
  "dot a b = X a * X b + Y a * Y b + Z a * Z b"

definition spec_cylinder_segment ::
  "Cylinder \<Rightarrow> (nat \<Rightarrow> Interval) \<Rightarrow> (real \<Rightarrow> real \<Rightarrow> Point3d) \<Rightarrow> Point3d \<times> Point3d" where
  "spec_cylinder_segment cyl domain point_at =
     (let u_mid = (IMin (domain 0) + IMax (domain 0)) / 2;
          P1 = point_at u_mid (IMin (domain 1));
          P2 = point_at u_mid (IMax (domain 1));
          t1 = dot (pt_sub P1 (cyl_Center cyl)) (cyl_Axis cyl);
          t2 = dot (pt_sub P2 (cyl_Center cyl)) (cyl_Axis cyl)
      in (pt_add (cyl_Center cyl) (vec_mul (cyl_Axis cyl) t1),
          pt_add (cyl_Center cyl) (vec_mul (cyl_Axis cyl) t2)))"

text \<open>
  The specification's reference point of a cone: the face at the midpoint of its U and V
  domains, and the apex of the cone when the domains cannot be evaluated.
\<close>

definition spec_cone_reference :: "Cone \<Rightarrow> FaceRef option \<Rightarrow> Point3d" where
  "spec_cone_reference cone face =
     (case face of
        Some f \<Rightarrow>
          (case face_Domain f of
             Some domain \<Rightarrow>
               face_PointAt f ((IMin (domain 0) + IMax (domain 0)) / 2)
                 ((IMin (domain 1) + IMax (domain 1)) / 2)
           | None \<Rightarrow> cone_ApexPoint cone)
      | None \<Rightarrow> cone_ApexPoint cone)"

text \<open>Sample objects and hosts: a selected polysurface, a sink that accepts every line
  and one that refuses every line.\<close>

definition brep_object :: "BrepFace list \<Rightarrow> RhinoObject" where
  "brep_object fs = \<lparr>ObjectType = 16, coercebrep = Some \<lparr>Faces = fs\<rparr>, coercesurface = None\<rparr>"

definition accepting_host :: Host where
  "accepting_host = (\<lambda>cs s e. Some (length cs))"

definition refusing_host :: Host where
  "refusing_host = (\<lambda>cs s e. None)"

definition surface_object :: "SurfaceGeo \<Rightarrow> RhinoObject" where
  "surface_object g = \<lparr>ObjectType = 8, coercebrep = None, coercesurface = Some g\<rparr>"

definition bare_surface :: "Surface \<Rightarrow> SurfaceGeo" where
  "bare_surface surf =
     \<lparr>as_Surface = surf, attr_PointAt = None, attr_Domain = None, attr_IsPlanar = None\<rparr>"

definition cylinder_and_cone_face :: BrepFace where
  "cylinder_and_cone_face =
     \<lparr>UnderlyingSurface =
        \<lparr>TypeName = ''RevSurface'',
         TryGetCylinder = Some \<lparr>cyl_Radius = 2, cyl_Axis = z_axis, cyl_Center = origin\<rparr>,
         TryGetCone = Some \<lparr>cone_Radius = 2, cone_AngleInDegrees = 0, cone_ApexPoint = origin,
                           cone_Axis = z_axis\<rparr>,
         TryGetSphere = None\<rparr>,
      FaceDomain = (\<lambda>i. if i = 0 then \<lparr>IMin = 0, IMax = 2 * pi\<rparr> else \<lparr>IMin = 0, IMax = 10\<rparr>),
      PointAt = (\<lambda>u v. \<lparr>X = 2 * cos u, Y = 2 * sin u, Z = v\<rparr>),
      IsPlanar = False\<rparr>"

section \<open>Runs that differ in the sphere fit\<close>

text \<open>
  \<open>set_sphere_object k obj\<close> is the object \<open>obj\<close> with the sphere fit of each of its
  surfaces replaced by what \<open>k\<close> gives for that surface; nothing else is changed.
\<close>

definition set_sphere_face :: "(Surface \<Rightarrow> Sphere option) \<Rightarrow> BrepFace \<Rightarrow> BrepFace" where
  "set_sphere_face k f =
     f\<lparr>UnderlyingSurface := (UnderlyingSurface f)\<lparr>TryGetSphere := k (UnderlyingSurface f)\<rparr>\<rparr>"

definition set_sphere_object :: "(Surface \<Rightarrow> Sphere option) \<Rightarrow> RhinoObject \<Rightarrow> RhinoObject" where
  "set_sphere_object k obj =
     obj\<lparr>coercebrep :=
           map_option (\<lambda>b. b\<lparr>Faces := map (set_sphere_face k) (Faces b)\<rparr>) (coercebrep obj),
         coercesurface :=
           map_option (\<lambda>g. g\<lparr>as_Surface := (as_Surface g)\<lparr>TryGetSphere := k (as_Surface g)\<rparr>\<rparr>)
             (coercesurface obj)\<rparr>"

section \<open>Reading the log of host calls\<close>

fun is_AddLine :: "call \<Rightarrow> bool" where
  \<comment> \<open>a line was requested\<close>
  "is_AddLine (AddLine_call s e reply) = True"
| "is_AddLine (Print_call l) = False"
| "is_AddLine (ObjectColor_call g color) = False"

fun is_created :: "call \<Rightarrow> bool" where
  \<comment> \<open>a line was requested and the host returned it\<close>
  "is_created (AddLine_call s e reply) = (reply \<noteq> None)"
| "is_created (Print_call l) = False"
| "is_created (ObjectColor_call g color) = False"

definition batch_items :: "RhinoObject list" where
  \<comment> \<open>a cylinder, a plane, a cone and a freeform surface, each a one-face polysurface\<close>
  "batch_items =
     [brep_object [cylinder_face 2 0 10], brep_object [plane_face], brep_object [cone_face],
      brep_object [freeform_face]]"

section \<open>The batch planner of the specification\<close>

text \<open>
  What the log of a run shows: the segments of the lines asked for, in order; for each of
  them whether the host returned a line; and the colours given, in order.
\<close>

fun requests :: "call list \<Rightarrow> (Point3d \<times> Point3d) list" where
  "requests [] = []"
| "requests (AddLine_call s e reply # cs) = (s, e) # requests cs"
| "requests (Print_call l # cs) = requests cs"
| "requests (ObjectColor_call g color # cs) = requests cs"

fun answered :: "call list \<Rightarrow> bool list" where
  "answered [] = []"
| "answered (AddLine_call s e reply # cs) = (reply \<noteq> None) # answered cs"
| "answered (Print_call l # cs) = answered cs"
| "answered (ObjectColor_call g color # cs) = answered cs"

fun colours :: "call list \<Rightarrow> int list list" where
  "colours [] = []"
| "colours (ObjectColor_call g color # cs) = color # colours cs"
| "colours (AddLine_call s e reply # cs) = colours cs"
| "colours (Print_call l # cs) = colours cs"

definition item_surface :: "RhinoObject \<Rightarrow> (Surface \<times> FaceRef option) option" where
  \<comment> \<open>the surface and the face script 04 takes from an item; \<open>None\<close>: the item is skipped
      or has no surface to classify\<close>
  "item_surface obj =
     (if ObjectType obj = 8 \<or> ObjectType obj = 16 then
        (case coerce (ObjectType obj) obj of
           Some geo \<Rightarrow>
             (case get_surface_batch geo of
                Inl err \<Rightarrow> None
              | Inr p \<Rightarrow> Some p)
         | None \<Rightarrow> None)
      else None)"

definition fits_both :: "RhinoObject \<Rightarrow> bool" where
  \<comment> \<open>the surface of the item passes the cylinder fit and the cone fit\<close>
  "fits_both obj =
     (case item_surface obj of
        Some (surf, face) \<Rightarrow> TryGetCylinder surf \<noteq> None \<and> TryGetCone surf \<noteq> None
      | None \<Rightarrow> False)"

definition raises :: "RhinoObject \<Rightarrow> bool" where
  \<comment> \<open>the two places where script 04 raises on an item: a polysurface without faces, and
      a cylinder that is no cone whose face has no \<open>Domain\<close>\<close>
  "raises obj =
     ((ObjectType obj = 8 \<or> ObjectType obj = 16) \<and>
      (case coerce (ObjectType obj) obj of
         Some geo \<Rightarrow>
           (case get_surface_batch geo of
              Inl err \<Rightarrow> True
            | Inr (surf, face) \<Rightarrow>
                TryGetCone surf = None \<and> TryGetCylinder surf \<noteq> None \<and>
                (case face of Some f \<Rightarrow> face_Domain f = None | None \<Rightarrow> False))
       | None \<Rightarrow> False))"

text \<open>
  The request the specification's planner emits for a surface: for a cylinder that has a
  face with domains its cylinder segment in green, for a cone its cone segment in red,
  nothing otherwise. The cylinder comes first, as in the specification's classifier.
\<close>

definition spec_request ::
  "Surface \<Rightarrow> FaceRef option \<Rightarrow> ((Point3d \<times> Point3d) \<times> int list) option" where
  "spec_request surf face =
     (case TryGetCylinder surf of
        Some cyl \<Rightarrow>
          (case face of
             Some f \<Rightarrow>
               (case face_Domain f of
                  Some domain \<Rightarrow>
                    Some (spec_cylinder_segment cyl domain (face_PointAt f), [0, 255, 0])
                | None \<Rightarrow> None)
           | None \<Rightarrow> None)
      | None \<Rightarrow>
          (case TryGetCone surf of
             Some cone \<Rightarrow>
               Some ((pt_sub (spec_cone_reference cone face) (vec_mul (cone_Axis cone) 2.5),
                      pt_add (spec_cone_reference cone face) (vec_mul (cone_Axis cone) 2.5)),
                     [255, 0, 0])
           | None \<Rightarrow> None))"

definition spec_item_requests :: "RhinoObject \<Rightarrow> ((Point3d \<times> Point3d) \<times> int list) list" where
  "spec_item_requests obj =
     (case item_surface obj of
        Some (surf, face) \<Rightarrow> (case spec_request surf face of Some r \<Rightarrow> [r] | None \<Rightarrow> [])
      | None \<Rightarrow> [])"

definition planned :: "RhinoObject list \<Rightarrow> ((Point3d \<times> Point3d) \<times> int list) list" where
  \<comment> \<open>the requests of a sequence of items, in input order\<close>
  "planned sel = concat (map spec_item_requests sel)"

definition coloured :: "((Point3d \<times> Point3d) \<times> int list) list \<Rightarrow> bool list \<Rightarrow> int list list" where
  \<comment> \<open>the colours of the requests for which the host returned a line\<close>
  "coloured rs oks = map (\<lambda>(r, ok). snd r) (filter (\<lambda>(r, ok). ok) (zip rs oks))"

section \<open>Statistics\<close>

lemma fold_nth: "fold (\<lambda>i. f (xs ! i)) [0..<length xs] s = fold f xs s"
proof -
  have "fold (\<lambda>i. f (xs ! i)) [0..<length xs] = fold f (map (\<lambda>i. xs ! i) [0..<length xs])"
    by (simp add: fold_map comp_def)
  then show ?thesis by (simp add: map_nth)
qed

lemma analyze_faces_fold: "analyze_faces geo = fold count_face (Faces geo) zero_counters"
  by (simp add: analyze_faces_def fold_nth)

lemma count_face_cylinders:
  "cylinders (count_face f c) = cylinders c + (if spec_classify f = TagCylinder then 1 else 0)"
  by (simp add: count_face_def spec_classify_def Let_def split: option.splits)

lemma count_face_cones:
  "cones (count_face f c) = cones c + (if spec_classify f = TagCone then 1 else 0)"
  by (simp add: count_face_def spec_classify_def Let_def split: option.splits)

lemma count_face_planes:
  "planes (count_face f c) = planes c + (if spec_classify f = TagPlane then 1 else 0)"
  by (simp add: count_face_def spec_classify_def Let_def split: option.splits)

lemma count_face_nurbs:
  "nurbs (count_face f c) = nurbs c + (if is_freeform (spec_classify f) then 1 else 0)"
  by (simp add: count_face_def spec_classify_def is_freeform_def Let_def split: option.splits)

lemma count_face_others:
  "others (count_face f c) = others c + (if spec_classify f = TagOther then 1 else 0)"
  by (simp add: count_face_def spec_classify_def Let_def split: option.splits)

lemma count_face_above:
  "cylinders_above_threshold (count_face f c) =
     cylinders_above_threshold c + (if spec_classify f = TagCylinder \<and> above_threshold f then 1 else 0)"
  by (simp add: count_face_def spec_classify_def above_threshold_def DIAMETER_THRESHOLD_def Let_def mult.commute
      split: option.splits)

lemma fold_count:
  assumes "\<And>f c. sel (count_face f c) = sel c + (if P f then 1 else 0)"
  shows "sel (fold count_face fs c) = sel c + length (filter P fs)"
  by (induction fs arbitrary: c) (simp_all add: assms)

lemma example_solid_counters:
  "analyze_faces example_solid =
     \<lparr>cylinders = 3, cones = 1, planes = 2, nurbs = 0, others = 0,
      cylinders_above_threshold = 2\<rparr>"
  by (simp add: analyze_faces_fold example_solid_def count_face_def zero_counters_def
      DIAMETER_THRESHOLD_def cylinder_face_def cylinder_surface_def cone_face_def cone_surface_def
      plane_face_def)

text \<open>
  C3. For a selected polysurface script 01 prints the counters of its faces. The
  statistics loop is a left-to-right pass over the face list, one step per face.
  A step adds one to exactly one of the five counters, the one of the face's tag, so the
  five counters of a solid are the numbers of its faces with each tag and add up to the
  number of faces. The above-threshold counter grows exactly at a cylinder whose
  diameter \<open>2 * radius\<close> is strictly greater than 3.2. A solid with no face gives all
  zeros. The solid with cylinders of diameter 2, 4 and 6, one cone and two planes gives
  3 cylinders, 2 of them above the threshold, 1 cone, 2 planes, no other, 6 in total.
\<close>

theorem statistics_aggregation:
  "analyze_brep (\<lparr>ObjectType = 16, coercebrep = Some geo, coercesurface = other\<rparr> # rest) =
     Some (analyze_faces geo)
   \<and> analyze_faces geo = fold count_face (Faces geo) zero_counters
   \<and> cylinders (count_face f c) = cylinders c + (if spec_classify f = TagCylinder then 1 else 0)
   \<and> cones (count_face f c) = cones c + (if spec_classify f = TagCone then 1 else 0)
   \<and> planes (count_face f c) = planes c + (if spec_classify f = TagPlane then 1 else 0)
   \<and> nurbs (count_face f c) = nurbs c + (if is_freeform (spec_classify f) then 1 else 0)
   \<and> others (count_face f c) = others c + (if spec_classify f = TagOther then 1 else 0)
   \<and> total_count (count_face f c) = total_count c + 1
   \<and> cylinders_above_threshold (count_face f c) =
       cylinders_above_threshold c +
         (if spec_classify f = TagCylinder \<and> above_threshold f then 1 else 0)
   \<and> cylinders (analyze_faces geo) =
       length (filter (\<lambda>f. spec_classify f = TagCylinder) (Faces geo))
   \<and> cones (analyze_faces geo) = length (filter (\<lambda>f. spec_classify f = TagCone) (Faces geo))
   \<and> planes (analyze_faces geo) = length (filter (\<lambda>f. spec_classify f = TagPlane) (Faces geo))
   \<and> nurbs (analyze_faces geo) =
       length (filter (\<lambda>f. is_freeform (spec_classify f)) (Faces geo))
   \<and> others (analyze_faces geo) = length (filter (\<lambda>f. spec_classify f = TagOther) (Faces geo))
   \<and> cylinders_above_threshold (analyze_faces geo) =
       length (filter (\<lambda>f. spec_classify f = TagCylinder \<and> above_threshold f) (Faces geo))
   \<and> total_count (analyze_faces geo) = length (Faces geo)
   \<and> analyze_faces \<lparr>Faces = []\<rparr> = zero_counters
   \<and> analyze_faces example_solid =
       \<lparr>cylinders = 3, cones = 1, planes = 2, nurbs = 0, others = 0,
        cylinders_above_threshold = 2\<rparr>
   \<and> total_count (analyze_faces example_solid) = 6"
proof -
  have step_total: "total_count (count_face g d) = total_count d + 1" for g d
    by (simp add: total_count_def count_face_def Let_def split: option.splits)
  have whole_total: "total_count (fold count_face fs d) = total_count d + length fs" for fs d
    by (induction fs arbitrary: d) (simp_all add: step_total)
  have cyl: "cylinders (analyze_faces geo) =
      length (filter (\<lambda>f. spec_classify f = TagCylinder) (Faces geo))"
    using fold_count [of cylinders "\<lambda>f. spec_classify f = TagCylinder", OF count_face_cylinders]
    by (simp add: analyze_faces_fold zero_counters_def)
  have con: "cones (analyze_faces geo) =
      length (filter (\<lambda>f. spec_classify f = TagCone) (Faces geo))"
    using fold_count [of cones "\<lambda>f. spec_classify f = TagCone", OF count_face_cones]
    by (simp add: analyze_faces_fold zero_counters_def)
  have pla: "planes (analyze_faces geo) =
      length (filter (\<lambda>f. spec_classify f = TagPlane) (Faces geo))"
    using fold_count [of planes "\<lambda>f. spec_classify f = TagPlane", OF count_face_planes]
    by (simp add: analyze_faces_fold zero_counters_def)
  have nur: "nurbs (analyze_faces geo) =
      length (filter (\<lambda>f. is_freeform (spec_classify f)) (Faces geo))"
    using fold_count [of nurbs "\<lambda>f. is_freeform (spec_classify f)", OF count_face_nurbs]
    by (simp add: analyze_faces_fold zero_counters_def)
  have oth: "others (analyze_faces geo) =
      length (filter (\<lambda>f. spec_classify f = TagOther) (Faces geo))"
    using fold_count [of others "\<lambda>f. spec_classify f = TagOther", OF count_face_others]
    by (simp add: analyze_faces_fold zero_counters_def)
  have abo: "cylinders_above_threshold (analyze_faces geo) =
      length (filter (\<lambda>f. spec_classify f = TagCylinder \<and> above_threshold f) (Faces geo))"
    using fold_count [of cylinders_above_threshold
        "\<lambda>f. spec_classify f = TagCylinder \<and> above_threshold f", OF count_face_above]
    by (simp add: analyze_faces_fold zero_counters_def)
  have tot: "total_count (analyze_faces geo) = length (Faces geo)"
    by (simp add: analyze_faces_fold whole_total) (simp add: total_count_def zero_counters_def)
  have emp: "analyze_faces \<lparr>Faces = []\<rparr> = zero_counters"
    by (simp add: analyze_faces_def)
  have ex6: "total_count (analyze_faces example_solid) = 6"
    by (simp add: example_solid_counters total_count_def)
  have script: "analyze_brep
      (\<lparr>ObjectType = 16, coercebrep = Some geo, coercesurface = other\<rparr> # rest) =
     Some (analyze_faces geo)"
    by (simp add: analyze_brep_def)
  show ?thesis
    using script analyze_faces_fold [of geo] count_face_cylinders [of f c] count_face_cones [of f c]
      count_face_planes [of f c] count_face_nurbs [of f c] count_face_others [of f c]
      step_total [of f c] count_face_above [of f c] cyl con pla nur oth abo tot emp
      example_solid_counters ex6
    by blast
qed

theorem statistics_aggregation_witness:
  "cylinders (analyze_faces example_solid) = 3
   \<and> cylinders_above_threshold (analyze_faces example_solid) = 2
   \<and> cones (count_face cone_face zero_counters) = 1
   \<and> total_count (analyze_faces example_solid) = 6"
proof -
  have tag: "spec_classify cone_face = TagCone"
    by (simp add: spec_classify_def cone_face_def cone_surface_def)
  have zero: "cones zero_counters = 0"
    by (simp add: zero_counters_def)
  note inst = statistics_aggregation [where geo = example_solid and f = cone_face
      and c = zero_counters]
  from inst have counters: "analyze_faces example_solid =
      \<lparr>cylinders = 3, cones = 1, planes = 2, nurbs = 0, others = 0,
       cylinders_above_threshold = 2\<rparr>"
    by blast
  from inst have six: "total_count (analyze_faces example_solid) = 6"
    by blast
  from inst have step: "cones (count_face cone_face zero_counters) =
      cones zero_counters + (if spec_classify cone_face = TagCone then 1 else 0)"
    by blast
  have a: "cylinders (analyze_faces example_solid) = 3"
    and b: "cylinders_above_threshold (analyze_faces example_solid) = 2"
    by (simp_all add: counters)
  have c: "cones (count_face cone_face zero_counters) = 1"
    by (simp add: step tag zero)
  from a b c six show ?thesis
    by blast
qed

section \<open>Axis lines\<close>

lemma cylinder_axis_line_spec:
  "cylinder_axis_line cyl domain point_at = spec_cylinder_segment cyl domain point_at"
  by (simp add: cylinder_axis_line_def spec_cylinder_segment_def dot_def pt_sub_def Let_def)

lemma create_line_cylinder_face:
  assumes "coerce (ObjectType obj) obj = Some geo"
    and "get_surface geo = Inr (surf, Some f)"
    and "face_Domain f = Some domain"
    and "TryGetCylinder surf = Some cyl"
    and "cylinder_axis_line cyl domain (face_PointAt f) = (p, q)"
  shows "create_line_cylinder host (obj # sel) =
           Inr (case host [] p q of
                  Some g \<Rightarrow> [AddLine_call p q (Some g), ObjectColor_call g [0, 255, 0]]
                | None \<Rightarrow> [AddLine_call p q None])"
  using assms
  by (simp add: create_line_cylinder_def rs_AddLine_def rs_ObjectColor_def
      Let_def split: prod.splits option.splits)

lemma get_surface_batch_eq: "get_surface geo = Inr x \<Longrightarrow> get_surface_batch geo = Inr x"
  by (auto simp add: get_surface_def get_surface_batch_def split: Geometry.splits list.splits)

lemma add_colored_line_calls:
  "add_colored_line host s e color st =
     (case host (calls st) s e of
        Some g \<Rightarrow>
          \<lparr>calls = calls st @ [AddLine_call s e (Some g), ObjectColor_call g color],
           lines_created = lines_created st + 1\<rparr>
      | None \<Rightarrow> \<lparr>calls = calls st @ [AddLine_call s e None], lines_created = lines_created st\<rparr>)"
  by (simp add: add_colored_line_def rs_AddLine_def rs_ObjectColor_def Let_def
      split: option.splits)

lemma process_surface_cylinder:
  assumes "ObjectType obj = 8 \<or> ObjectType obj = 16"
    and "coerce (ObjectType obj) obj = Some geo"
    and "get_surface_batch geo = Inr (surf, Some f)"
    and "face_Domain f = Some domain"
    and "TryGetCone surf = None"
    and "TryGetCylinder surf = Some cyl"
  shows "process_surface host obj st =
           Inr (add_colored_line host (fst (cylinder_axis_line cyl domain (face_PointAt f)))
                  (snd (cylinder_axis_line cyl domain (face_PointAt f))) [0, 255, 0]
                  (say CYLINDER st))"
  using assms
  by (auto simp add: process_surface_def Let_def split: prod.splits)

lemma process_surface_cone:
  assumes "ObjectType obj = 8 \<or> ObjectType obj = 16"
    and "coerce (ObjectType obj) obj = Some geo"
    and "get_surface_batch geo = Inr (surf, face)"
    and "TryGetCone surf = Some cone"
  shows "process_surface host obj st =
           Inr (add_colored_line host (fst (cone_axis_line cone face))
                  (snd (cone_axis_line cone face)) [255, 0, 0] (say CONE st))"
  using assms
  by (auto simp add: process_surface_def Let_def split: prod.splits)

lemma cylinder_face_segment:
  "cylinder_axis_line \<lparr>cyl_Radius = r, cyl_Axis = z_axis, cyl_Center = origin\<rparr>
     (FaceDomain (cylinder_face r v0 v1)) (PointAt (cylinder_face r v0 v1)) =
   (\<lparr>X = 0, Y = 0, Z = v0\<rparr>, \<lparr>X = 0, Y = 0, Z = v1\<rparr>)"
  by (simp add: cylinder_axis_line_def cylinder_face_def pt_sub_def pt_add_def vec_mul_def
      z_axis_def origin_def Let_def)

lemma brep_object_surface:
  "coerce (ObjectType (brep_object (f # fs))) (brep_object (f # fs)) = Some (GBrep \<lparr>Faces = f # fs\<rparr>)"
  "get_surface (GBrep \<lparr>Faces = f # fs\<rparr>) = Inr (UnderlyingSurface f, Some (of_BrepFace f))"
  "get_surface_batch (GBrep \<lparr>Faces = f # fs\<rparr>) = Inr (UnderlyingSurface f, Some (of_BrepFace f))"
  "ObjectType (brep_object fs) = 16"
  by (simp_all add: brep_object_def coerce_def get_surface_def get_surface_batch_def)

text \<open>
  C2. For a face whose surface fits a cylinder, with \<open>u_mid\<close> the midpoint of the U
  domain, \<open>P1\<close> and \<open>P2\<close> the face at \<open>u_mid\<close> and the lower and upper end of the V
  domain, and \<open>ti\<close> the dot product of \<open>Pi - center\<close> with the axis direction, the
  computed segment runs from \<open>center + axis * t1\<close> to \<open>center + axis * t2\<close>: the start
  belongs to the lower V boundary, the end to the upper one. Script 03 asks the host for
  exactly this line, and so does script 04 for an item that fits no cone.
\<close>

theorem cylinder_axis_segment:
  assumes "coerce (ObjectType obj) obj = Some geo"
    and "get_surface geo = Inr (surf, Some f)"
    and "face_Domain f = Some domain"
    and "TryGetCylinder surf = Some cyl"
    and "u_mid = (IMin (domain 0) + IMax (domain 0)) / 2"
    and "P1 = face_PointAt f u_mid (IMin (domain 1))"
    and "P2 = face_PointAt f u_mid (IMax (domain 1))"
    and "t1 = dot (pt_sub P1 (cyl_Center cyl)) (cyl_Axis cyl)"
    and "t2 = dot (pt_sub P2 (cyl_Center cyl)) (cyl_Axis cyl)"
    and "start = pt_add (cyl_Center cyl) (vec_mul (cyl_Axis cyl) t1)"
    and "end = pt_add (cyl_Center cyl) (vec_mul (cyl_Axis cyl) t2)"
  shows "cylinder_axis_line cyl domain (face_PointAt f) = (start, end)
     \<and> spec_cylinder_segment cyl domain (face_PointAt f) = (start, end)
     \<and> create_line_cylinder host (obj # sel) =
         Inr (case host [] start end of
                Some g \<Rightarrow> [AddLine_call start end (Some g), ObjectColor_call g [0, 255, 0]]
              | None \<Rightarrow> [AddLine_call start end None])
     \<and> ((ObjectType obj = 8 \<or> ObjectType obj = 16) \<and> TryGetCone surf = None \<longrightarrow>
          process_surface host obj st =
            Inr (add_colored_line host start end [0, 255, 0] (say CYLINDER st)))"
proof -
  have spec: "spec_cylinder_segment cyl domain (face_PointAt f) = (start, end)"
    unfolding assms(5-11) spec_cylinder_segment_def Let_def by (rule refl)
  then have line: "cylinder_axis_line cyl domain (face_PointAt f) = (start, end)"
    by (simp add: cylinder_axis_line_spec)
  have s03: "create_line_cylinder host (obj # sel) =
         Inr (case host [] start end of
                Some g \<Rightarrow> [AddLine_call start end (Some g), ObjectColor_call g [0, 255, 0]]
              | None \<Rightarrow> [AddLine_call start end None])"
    using assms(1-4) line by (rule create_line_cylinder_face)
  have s04: "process_surface host obj st =
            Inr (add_colored_line host start end [0, 255, 0] (say CYLINDER st))"
    if "ObjectType obj = 8 \<or> ObjectType obj = 16" and "TryGetCone surf = None"
    using process_surface_cylinder [OF that(1) assms(1) get_surface_batch_eq [OF assms(2)]
        assms(3) that(2) assms(4), of host st]
    by (simp add: line)
  from spec line s03 s04 show ?thesis by blast
qed

theorem cylinder_axis_segment_witness:
  "create_line_cylinder accepting_host [brep_object [cylinder_face 2 0 10]] =
     Inr [AddLine_call \<lparr>X = 0, Y = 0, Z = 0\<rparr> \<lparr>X = 0, Y = 0, Z = 10\<rparr> (Some 0),
          ObjectColor_call 0 [0, 255, 0]]
   \<and> process_surface accepting_host (brep_object [cylinder_face 2 0 10])
        \<lparr>calls = [], lines_created = 0\<rparr> =
     Inr \<lparr>calls = [Print_call CYLINDER,
                    AddLine_call \<lparr>X = 0, Y = 0, Z = 0\<rparr> \<lparr>X = 0, Y = 0, Z = 10\<rparr> (Some 1),
                    ObjectColor_call 1 [0, 255, 0]],
          lines_created = 1\<rparr>"
proof -
  let ?f = "cylinder_face 2 0 10"
  let ?cyl = "\<lparr>cyl_Radius = 2, cyl_Axis = z_axis, cyl_Center = origin\<rparr>"
  have h1: "coerce (ObjectType (brep_object [?f])) (brep_object [?f]) = Some (GBrep \<lparr>Faces = [?f]\<rparr>)"
    by (rule brep_object_surface)
  have h2: "get_surface (GBrep \<lparr>Faces = [?f]\<rparr>) = Inr (cylinder_surface 2, Some (of_BrepFace ?f))"
    by (simp add: get_surface_def cylinder_face_def)
  have h3: "face_Domain (of_BrepFace ?f) = Some (FaceDomain ?f)"
    by (simp add: of_BrepFace_def)
  have h4: "TryGetCylinder (cylinder_surface 2) = Some ?cyl"
    by (simp add: cylinder_surface_def)
  have h5: "pi = (IMin (FaceDomain ?f 0) + IMax (FaceDomain ?f 0)) / 2"
    by (simp add: cylinder_face_def)
  have h6: "\<lparr>X = - 2, Y = 0, Z = 0\<rparr> = face_PointAt (of_BrepFace ?f) pi (IMin (FaceDomain ?f 1))"
    by (simp add: of_BrepFace_def cylinder_face_def)
  have h7: "\<lparr>X = - 2, Y = 0, Z = 10\<rparr> = face_PointAt (of_BrepFace ?f) pi (IMax (FaceDomain ?f 1))"
    by (simp add: of_BrepFace_def cylinder_face_def)
  have h8: "0 = dot (pt_sub \<lparr>X = - 2, Y = 0, Z = 0\<rparr> (cyl_Center ?cyl)) (cyl_Axis ?cyl)"
    by (simp add: dot_def pt_sub_def z_axis_def origin_def)
  have h9: "10 = dot (pt_sub \<lparr>X = - 2, Y = 0, Z = 10\<rparr> (cyl_Center ?cyl)) (cyl_Axis ?cyl)"
    by (simp add: dot_def pt_sub_def z_axis_def origin_def)
  have h10: "\<lparr>X = 0, Y = 0, Z = 0\<rparr> = pt_add (cyl_Center ?cyl) (vec_mul (cyl_Axis ?cyl) 0)"
    by (simp add: pt_add_def vec_mul_def z_axis_def origin_def)
  have h11: "\<lparr>X = 0, Y = 0, Z = 10\<rparr> = pt_add (cyl_Center ?cyl) (vec_mul (cyl_Axis ?cyl) 10)"
    by (simp add: pt_add_def vec_mul_def z_axis_def origin_def)
  have t16: "ObjectType (brep_object [?f]) = 16"
    by (rule brep_object_surface)
  have nocone: "TryGetCone (cylinder_surface 2) = None"
    by (simp add: cylinder_surface_def)
  note inst = cylinder_axis_segment [OF h1 h2 h3 h4 h5 h6 h7 h8 h9 h10 h11,
      of accepting_host "[]" "\<lparr>calls = [], lines_created = 0\<rparr>"]
  from inst have a: "create_line_cylinder accepting_host [brep_object [?f]] =
     Inr [AddLine_call \<lparr>X = 0, Y = 0, Z = 0\<rparr> \<lparr>X = 0, Y = 0, Z = 10\<rparr> (Some 0),
          ObjectColor_call 0 [0, 255, 0]]"
    by (simp add: accepting_host_def)
  from inst t16 nocone have b: "process_surface accepting_host (brep_object [?f])
        \<lparr>calls = [], lines_created = 0\<rparr> =
      Inr (add_colored_line accepting_host \<lparr>X = 0, Y = 0, Z = 0\<rparr> \<lparr>X = 0, Y = 0, Z = 10\<rparr>
             [0, 255, 0] (say CYLINDER \<lparr>calls = [], lines_created = 0\<rparr>))"
    by simp
  have c: "add_colored_line accepting_host \<lparr>X = 0, Y = 0, Z = 0\<rparr> \<lparr>X = 0, Y = 0, Z = 10\<rparr>
             [0, 255, 0] (say CYLINDER \<lparr>calls = [], lines_created = 0\<rparr>) =
     \<lparr>calls = [Print_call CYLINDER,
                AddLine_call \<lparr>X = 0, Y = 0, Z = 0\<rparr> \<lparr>X = 0, Y = 0, Z = 10\<rparr> (Some 1),
                ObjectColor_call 1 [0, 255, 0]],
      lines_created = 1\<rparr>"
    by (simp add: add_colored_line_calls say_def accepting_host_def)
  from a b c show ?thesis
    by simp
qed

text \<open>
  C7. For a face whose surface fits a cylinder and whose V domain has equal ends, the
  computed segment has equal end points, and the scripts return normally: script 03 asks
  the host for a line from a point to itself, and so does script 04 for an item that fits
  no cone.
\<close>

theorem degenerate_domain:
  assumes "coerce (ObjectType obj) obj = Some geo"
    and "get_surface geo = Inr (surf, Some f)"
    and "face_Domain f = Some domain"
    and "TryGetCylinder surf = Some cyl"
    and "IMin (domain 1) = IMax (domain 1)"
  shows "fst (cylinder_axis_line cyl domain (face_PointAt f)) =
           snd (cylinder_axis_line cyl domain (face_PointAt f))
     \<and> (\<exists>p. create_line_cylinder host (obj # sel) =
           Inr (case host [] p p of
                  Some g \<Rightarrow> [AddLine_call p p (Some g), ObjectColor_call g [0, 255, 0]]
                | None \<Rightarrow> [AddLine_call p p None]))
     \<and> ((ObjectType obj = 8 \<or> ObjectType obj = 16) \<and> TryGetCone surf = None \<longrightarrow>
          (\<exists>p. process_surface host obj st =
             Inr (add_colored_line host p p [0, 255, 0] (say CYLINDER st))))"
proof -
  define p where "p = fst (cylinder_axis_line cyl domain (face_PointAt f))"
  have line: "cylinder_axis_line cyl domain (face_PointAt f) = (p, p)"
    using assms(5) by (simp add: p_def cylinder_axis_line_def Let_def)
  have s03: "create_line_cylinder host (obj # sel) =
           Inr (case host [] p p of
                  Some g \<Rightarrow> [AddLine_call p p (Some g), ObjectColor_call g [0, 255, 0]]
                | None \<Rightarrow> [AddLine_call p p None])"
    using assms(1-4) line by (rule create_line_cylinder_face)
  have s04: "process_surface host obj st =
             Inr (add_colored_line host p p [0, 255, 0] (say CYLINDER st))"
    if "ObjectType obj = 8 \<or> ObjectType obj = 16" and "TryGetCone surf = None"
    using process_surface_cylinder [OF that(1) assms(1) get_surface_batch_eq [OF assms(2)]
        assms(3) that(2) assms(4), of host st]
    by (simp add: line)
  from line have "fst (cylinder_axis_line cyl domain (face_PointAt f)) =
           snd (cylinder_axis_line cyl domain (face_PointAt f))"
    by simp
  with s03 s04 show ?thesis by blast
qed

theorem degenerate_domain_witness:
  "fst (cylinder_axis_line \<lparr>cyl_Radius = 2, cyl_Axis = z_axis, cyl_Center = origin\<rparr>
          (FaceDomain (cylinder_face 2 5 5)) (PointAt (cylinder_face 2 5 5))) =
   snd (cylinder_axis_line \<lparr>cyl_Radius = 2, cyl_Axis = z_axis, cyl_Center = origin\<rparr>
          (FaceDomain (cylinder_face 2 5 5)) (PointAt (cylinder_face 2 5 5)))
   \<and> snd (cylinder_axis_line \<lparr>cyl_Radius = 2, cyl_Axis = z_axis, cyl_Center = origin\<rparr>
          (FaceDomain (cylinder_face 2 5 5)) (PointAt (cylinder_face 2 5 5))) =
       \<lparr>X = 0, Y = 0, Z = 5\<rparr>"
proof -
  let ?f = "cylinder_face 2 5 5"
  let ?cyl = "\<lparr>cyl_Radius = 2, cyl_Axis = z_axis, cyl_Center = origin\<rparr>"
  have h1: "coerce (ObjectType (brep_object [?f])) (brep_object [?f]) = Some (GBrep \<lparr>Faces = [?f]\<rparr>)"
    by (rule brep_object_surface)
  have h2: "get_surface (GBrep \<lparr>Faces = [?f]\<rparr>) = Inr (cylinder_surface 2, Some (of_BrepFace ?f))"
    by (simp add: get_surface_def cylinder_face_def)
  have h3: "face_Domain (of_BrepFace ?f) = Some (FaceDomain ?f)"
    by (simp add: of_BrepFace_def)
  have h4: "TryGetCylinder (cylinder_surface 2) = Some ?cyl"
    by (simp add: cylinder_surface_def)
  have h5: "IMin (FaceDomain ?f 1) = IMax (FaceDomain ?f 1)"
    by (simp add: cylinder_face_def)
  have pt: "face_PointAt (of_BrepFace ?f) = PointAt ?f"
    by (simp add: of_BrepFace_def)
  from degenerate_domain [OF h1 h2 h3 h4 h5]
  have "fst (cylinder_axis_line ?cyl (FaceDomain ?f) (PointAt ?f)) =
        snd (cylinder_axis_line ?cyl (FaceDomain ?f) (PointAt ?f))"
    unfolding pt by (rule conjunct1)
  then show ?thesis
    by (simp add: cylinder_face_segment)
qed

text \<open>
  C5. For a surface that fits a cone, the segment runs from \<open>reference - axis * 2.5\<close> to
  \<open>reference + axis * 2.5\<close>, where the reference point is the face at the midpoint of
  its U and V domains, or the apex of the cone when there is no face or the face has no
  domains. The end minus the start is \<open>axis * 5\<close> whatever the face and its domains
  are. Script 04 asks the host for exactly this line, in red.
\<close>

theorem cone_axis_segment:
  "cone_axis_line cone face =
     (pt_sub (spec_cone_reference cone face) (vec_mul (cone_Axis cone) 2.5),
      pt_add (spec_cone_reference cone face) (vec_mul (cone_Axis cone) 2.5))
   \<and> pt_sub (snd (cone_axis_line cone face)) (fst (cone_axis_line cone face)) =
       vec_mul (cone_Axis cone) 5
   \<and> ((ObjectType obj = 8 \<or> ObjectType obj = 16) \<and> coerce (ObjectType obj) obj = Some geo
        \<and> get_surface_batch geo = Inr (surf, face) \<and> TryGetCone surf = Some cone \<longrightarrow>
        process_surface host obj st =
          Inr (add_colored_line host
                 (pt_sub (spec_cone_reference cone face) (vec_mul (cone_Axis cone) 2.5))
                 (pt_add (spec_cone_reference cone face) (vec_mul (cone_Axis cone) 2.5))
                 [255, 0, 0] (say CONE st)))"
proof -
  have line: "cone_axis_line cone face =
     (pt_sub (spec_cone_reference cone face) (vec_mul (cone_Axis cone) 2.5),
      pt_add (spec_cone_reference cone face) (vec_mul (cone_Axis cone) 2.5))"
    by (simp add: cone_axis_line_def spec_cone_reference_def Let_def
        split: option.splits)
  have len: "pt_sub (snd (cone_axis_line cone face)) (fst (cone_axis_line cone face)) =
       vec_mul (cone_Axis cone) 5"
    by (simp add: line pt_sub_def pt_add_def vec_mul_def)
  have s04: "process_surface host obj st =
          Inr (add_colored_line host
                 (pt_sub (spec_cone_reference cone face) (vec_mul (cone_Axis cone) 2.5))
                 (pt_add (spec_cone_reference cone face) (vec_mul (cone_Axis cone) 2.5))
                 [255, 0, 0] (say CONE st))"
    if "ObjectType obj = 8 \<or> ObjectType obj = 16" and "coerce (ObjectType obj) obj = Some geo"
      and "get_surface_batch geo = Inr (surf, face)" and "TryGetCone surf = Some cone"
    using process_surface_cone [OF that, of host st] by (simp add: line)
  from line len s04 show ?thesis by blast
qed

theorem cone_axis_segment_witness:
  "process_surface accepting_host (brep_object [cone_face]) \<lparr>calls = [], lines_created = 0\<rparr> =
     Inr \<lparr>calls = [Print_call CONE,
                    AddLine_call \<lparr>X = - (1 / 2), Y = 0, Z = - 2\<rparr> \<lparr>X = - (1 / 2), Y = 0, Z = 3\<rparr>
                      (Some 1),
                    ObjectColor_call 1 [255, 0, 0]],
          lines_created = 1\<rparr>"
proof -
  let ?cone = "\<lparr>cone_Radius = 1, cone_AngleInDegrees = 45, cone_ApexPoint = origin,
                cone_Axis = z_axis\<rparr>"
  let ?face = "Some (of_BrepFace cone_face)"
  have h1: "ObjectType (brep_object [cone_face]) = 8 \<or> ObjectType (brep_object [cone_face]) = 16"
    by (simp add: brep_object_def)
  have h2: "coerce (ObjectType (brep_object [cone_face])) (brep_object [cone_face]) =
      Some (GBrep \<lparr>Faces = [cone_face]\<rparr>)"
    by (rule brep_object_surface)
  have h3: "get_surface_batch (GBrep \<lparr>Faces = [cone_face]\<rparr>) = Inr (cone_surface, ?face)"
    by (simp add: get_surface_batch_def cone_face_def)
  have h4: "TryGetCone cone_surface = Some ?cone"
    by (simp add: cone_surface_def)
  have ref: "spec_cone_reference ?cone ?face = \<lparr>X = - (1 / 2), Y = 0, Z = 1 / 2\<rparr>"
    by (simp add: spec_cone_reference_def of_BrepFace_def cone_face_def)
  from cone_axis_segment [of ?cone ?face "brep_object [cone_face]" "GBrep \<lparr>Faces = [cone_face]\<rparr>"
      cone_surface accepting_host "\<lparr>calls = [], lines_created = 0\<rparr>"] h1 h2 h3 h4
  have "process_surface accepting_host (brep_object [cone_face]) \<lparr>calls = [], lines_created = 0\<rparr> =
      Inr (add_colored_line accepting_host
             (pt_sub (spec_cone_reference ?cone ?face) (vec_mul (cone_Axis ?cone) 2.5))
             (pt_add (spec_cone_reference ?cone ?face) (vec_mul (cone_Axis ?cone) 2.5))
             [255, 0, 0] (say CONE \<lparr>calls = [], lines_created = 0\<rparr>))"
    by blast
  then show ?thesis
    unfolding ref
    by (simp add: pt_sub_def pt_add_def vec_mul_def z_axis_def add_colored_line_calls
        say_def accepting_host_def)
qed

section \<open>Polysurfaces\<close>

text \<open>
  C9. For a selected polysurface with at least one face, scripts 02, 03 and 04 look at
  the face of index 0 only: the inspection report is that of this face, and the host
  calls of scripts 03 and 04 are those made for the polysurface that has this face alone.
\<close>

theorem brep_first_face_only:
  assumes "ObjectType obj = 16"
    and "coercebrep obj = Some b"
    and "Faces b = f # rest"
  shows "check_surface (obj # sel) =
           Inr (Some (inspect (UnderlyingSurface f) (Some (of_BrepFace f))))
     \<and> check_surface (obj # sel) = check_surface [brep_object [f]]
     \<and> create_line_cylinder host (obj # sel) = create_line_cylinder host [brep_object [f]]
     \<and> process_surface host obj st = process_surface host (brep_object [f]) st"
proof -
  have geo: "coerce (ObjectType obj) obj = Some (GBrep b)"
    using assms by (simp add: coerce_def)
  have one: "coerce (ObjectType (brep_object [f])) (brep_object [f]) = Some (GBrep \<lparr>Faces = [f]\<rparr>)"
    by (rule brep_object_surface)
  have s: "get_surface (GBrep b) = get_surface (GBrep \<lparr>Faces = [f]\<rparr>)"
    and sb: "get_surface_batch (GBrep b) = get_surface_batch (GBrep \<lparr>Faces = [f]\<rparr>)"
    and sv: "get_surface (GBrep b) = Inr (UnderlyingSurface f, Some (of_BrepFace f))"
    using assms(3) by (simp_all add: get_surface_def get_surface_batch_def)
  have t: "ObjectType (brep_object [f]) = 16"
    by (rule brep_object_surface)
  have c1: "check_surface (obj # sel) =
           Inr (Some (inspect (UnderlyingSurface f) (Some (of_BrepFace f))))"
    using assms(1) geo sv by (simp add: check_surface_def)
  have c2: "check_surface (obj # sel) = check_surface [brep_object [f]]"
    using assms(1) geo one s t by (simp add: check_surface_def)
  have c3: "create_line_cylinder host (obj # sel) = create_line_cylinder host [brep_object [f]]"
    using geo one s by (simp add: create_line_cylinder_def)
  have c4: "process_surface host obj st = process_surface host (brep_object [f]) st"
    using assms(1) geo one sb t by (simp add: process_surface_def)
  from c1 c2 c3 c4 show ?thesis by blast
qed

theorem brep_first_face_only_witness:
  "check_surface [brep_object [cone_face, plane_face, cylinder_face 1 0 10]] =
     Inr (Some \<lparr>is_cyl = False, is_cone = True, is_sphere = False, is_planar = False,
                SUMMARY = CONE\<rparr>)
   \<and> process_surface accepting_host (brep_object [cone_face, plane_face, cylinder_face 1 0 10])
        \<lparr>calls = [], lines_created = 0\<rparr> =
      process_surface accepting_host (brep_object [cone_face]) \<lparr>calls = [], lines_created = 0\<rparr>"
proof -
  let ?obj = "brep_object [cone_face, plane_face, cylinder_face 1 0 10]"
  have h1: "ObjectType ?obj = 16"
    by (rule brep_object_surface)
  have h2: "coercebrep ?obj = Some \<lparr>Faces = [cone_face, plane_face, cylinder_face 1 0 10]\<rparr>"
    by (simp add: brep_object_def)
  have h3: "Faces \<lparr>Faces = [cone_face, plane_face, cylinder_face 1 0 10]\<rparr> =
      cone_face # [plane_face, cylinder_face 1 0 10]"
    by simp
  have r: "inspect (UnderlyingSurface cone_face) (Some (of_BrepFace cone_face)) =
      \<lparr>is_cyl = False, is_cone = True, is_sphere = False, is_planar = False, SUMMARY = CONE\<rparr>"
    by (simp add: inspect_def cone_face_def cone_surface_def of_BrepFace_def)
  note inst = brep_first_face_only [OF h1 h2 h3, of "[]" accepting_host
      "\<lparr>calls = [], lines_created = 0\<rparr>"]
  from inst have a: "check_surface [?obj] =
      Inr (Some (inspect (UnderlyingSurface cone_face) (Some (of_BrepFace cone_face))))"
    by blast
  from inst have b: "process_surface accepting_host ?obj \<lparr>calls = [], lines_created = 0\<rparr> =
      process_surface accepting_host (brep_object [cone_face]) \<lparr>calls = [], lines_created = 0\<rparr>"
    by blast
  from a b r show ?thesis by simp
qed

section \<open>The sphere fit\<close>

lemma inspect_sphere:
  "SUMMARY (inspect (surf\<lparr>TryGetSphere := sp\<rparr>) face) = SUMMARY (inspect surf face)"
  by (simp add: inspect_def Let_def)

lemma count_face_sphere: "count_face (set_sphere_face k f) c = count_face f c"
  by (simp add: count_face_def set_sphere_face_def Let_def split: option.splits)

lemma analyze_faces_sphere:
  "analyze_faces (b\<lparr>Faces := map (set_sphere_face k) (Faces b)\<rparr>) = analyze_faces b"
proof -
  have "fold count_face (map (set_sphere_face k) fs) c = fold count_face fs c" for fs c
    by (induction fs arbitrary: c) (simp_all add: count_face_sphere)
  then show ?thesis by (simp add: analyze_faces_fold)
qed

lemma analyze_brep_sphere: "analyze_brep (map (set_sphere_object k) sel) = analyze_brep sel"
proof (cases sel)
  case Nil
  then show ?thesis by (simp add: analyze_brep_def)
next
  case (Cons obj rest)
  then show ?thesis
    by (cases "coercebrep obj")
      (simp_all add: analyze_brep_def set_sphere_object_def analyze_faces_sphere)
qed

lemma get_surface_sphere:
  "coerce t (set_sphere_object k obj) = None \<longleftrightarrow> coerce t obj = None"
  "coerce t obj = Some geo \<Longrightarrow>
     \<exists>geo'. coerce t (set_sphere_object k obj) = Some geo' \<and>
       (case get_surface geo of
          Inl err \<Rightarrow> get_surface geo' = Inl err
        | Inr (surf, face) \<Rightarrow> get_surface geo' = Inr (surf\<lparr>TryGetSphere := k surf\<rparr>, face)) \<and>
       (case get_surface_batch geo of
          Inl err \<Rightarrow> get_surface_batch geo' = Inl err
        | Inr (surf, face) \<Rightarrow>
            get_surface_batch geo' = Inr (surf\<lparr>TryGetSphere := k surf\<rparr>, face))"
  by (auto simp add: coerce_def set_sphere_object_def set_sphere_face_def get_surface_def
      get_surface_batch_def of_BrepFace_def of_SurfaceGeo_def
      split: if_splits list.splits option.splits)

lemma ObjectType_sphere: "ObjectType (set_sphere_object k obj) = ObjectType obj"
  by (simp add: set_sphere_object_def)

lemma process_surface_sphere:
  "process_surface host (set_sphere_object k obj) st = process_surface host obj st"
proof (cases "coerce (ObjectType obj) obj")
  case None
  then have "coerce (ObjectType obj) (set_sphere_object k obj) = None"
    by (simp add: get_surface_sphere(1))
  with None show ?thesis
    by (simp add: process_surface_def ObjectType_sphere Let_def split: option.splits)
next
  case (Some geo)
  from get_surface_sphere(2) [OF Some, of k] obtain geo' where
    c: "coerce (ObjectType obj) (set_sphere_object k obj) = Some geo'" and
    b: "case get_surface_batch geo of
          Inl err \<Rightarrow> get_surface_batch geo' = Inl err
        | Inr (surf, face) \<Rightarrow>
            get_surface_batch geo' = Inr (surf\<lparr>TryGetSphere := k surf\<rparr>, face)"
    by blast
  show ?thesis
  proof (cases "get_surface_batch geo")
    case (Inl err)
    with b Some c show ?thesis
      by (simp add: process_surface_def ObjectType_sphere Let_def split: option.splits)
  next
    case (Inr p)
    obtain surf face where p: "p = (surf, face)" by (cases p)
    with b Inr have "get_surface_batch geo' = Inr (surf\<lparr>TryGetSphere := k surf\<rparr>, face)"
      by simp
    with Inr p Some c show ?thesis
      by (simp add: process_surface_def ObjectType_sphere Let_def split: option.splits)
  qed
qed

lemma process_all_sphere:
  "process_all host (map (set_sphere_object k) sel) st = process_all host sel st"
  by (induction sel arbitrary: st) (simp_all add: process_surface_sphere split: sum.splits)

lemma create_line_cylinder_sphere:
  "create_line_cylinder host (map (set_sphere_object k) sel) = create_line_cylinder host sel"
proof (cases sel)
  case Nil
  then show ?thesis by simp
next
  case (Cons obj rest)
  show ?thesis
  proof (cases "coerce (ObjectType obj) obj")
    case None
    then have "coerce (ObjectType obj) (set_sphere_object k obj) = None"
      by (simp add: get_surface_sphere(1))
    with None Cons show ?thesis
      by (simp add: create_line_cylinder_def ObjectType_sphere Let_def split: option.splits)
  next
    case (Some geo)
    from get_surface_sphere(2) [OF Some, of k] obtain geo' where
      c: "coerce (ObjectType obj) (set_sphere_object k obj) = Some geo'" and
      b: "case get_surface geo of
            Inl err \<Rightarrow> get_surface geo' = Inl err
          | Inr (surf, face) \<Rightarrow> get_surface geo' = Inr (surf\<lparr>TryGetSphere := k surf\<rparr>, face)"
      by blast
    show ?thesis
    proof (cases "get_surface geo")
      case (Inl err)
      with b Some c Cons show ?thesis
        by (simp add: create_line_cylinder_def ObjectType_sphere Let_def split: option.splits)
    next
      case (Inr p)
      obtain surf face where p: "p = (surf, face)" by (cases p)
      with b Inr have "get_surface geo' = Inr (surf\<lparr>TryGetSphere := k surf\<rparr>, face)"
        by simp
      with Inr p Some c Cons show ?thesis
        by (simp add: create_line_cylinder_def ObjectType_sphere Let_def split: option.splits)
    qed
  qed
qed

lemma check_surface_sphere:
  "map_sum id (map_option SUMMARY) (check_surface (map (set_sphere_object k) sel)) =
   map_sum id (map_option SUMMARY) (check_surface sel)"
proof (cases sel)
  case Nil
  then show ?thesis by simp
next
  case (Cons obj rest)
  show ?thesis
  proof (cases "coerce (ObjectType obj) obj")
    case None
    then have "coerce (ObjectType obj) (set_sphere_object k obj) = None"
      by (simp add: get_surface_sphere(1))
    with None Cons show ?thesis
      by (simp add: check_surface_def ObjectType_sphere Let_def)
  next
    case (Some geo)
    from get_surface_sphere(2) [OF Some, of k] obtain geo' where
      c: "coerce (ObjectType obj) (set_sphere_object k obj) = Some geo'" and
      b: "case get_surface geo of
            Inl err \<Rightarrow> get_surface geo' = Inl err
          | Inr (surf, face) \<Rightarrow> get_surface geo' = Inr (surf\<lparr>TryGetSphere := k surf\<rparr>, face)"
      by blast
    show ?thesis
    proof (cases "get_surface geo")
      case (Inl err)
      with b Some c Cons show ?thesis
        by (simp add: check_surface_def ObjectType_sphere Let_def)
    next
      case (Inr p)
      obtain surf face where p: "p = (surf, face)" by (cases p)
      with b Inr have "get_surface geo' = Inr (surf\<lparr>TryGetSphere := k surf\<rparr>, face)"
        by simp
      with Inr p Some c Cons show ?thesis
        by (simp add: check_surface_def ObjectType_sphere inspect_sphere Let_def split: option.splits)
    qed
  qed
qed

text \<open>
  C8. The SUMMARY line of the inspection does not depend on the sphere fit: two surfaces
  that differ in the sphere fit only get the same SUMMARY, while the sphere line of the
  report follows the fit. The same holds for whole runs: replacing the sphere fit of every
  surface of the selection changes neither the SUMMARY of script 02, nor the statistics
  of script 01, nor the host calls and the counter of scripts 03 and 04.
\<close>

theorem sphere_fit_noninterference:
  "SUMMARY (inspect (surf\<lparr>TryGetSphere := sp\<rparr>) face) = SUMMARY (inspect surf face)
   \<and> is_sphere (inspect (surf\<lparr>TryGetSphere := sp\<rparr>) face) = (sp \<noteq> None)
   \<and> map_sum id (map_option SUMMARY) (check_surface (map (set_sphere_object k) sel)) =
       map_sum id (map_option SUMMARY) (check_surface sel)
   \<and> analyze_brep (map (set_sphere_object k) sel) = analyze_brep sel
   \<and> create_line_cylinder host (map (set_sphere_object k) sel) = create_line_cylinder host sel
   \<and> batch_process host (map (set_sphere_object k) sel) = batch_process host sel"
proof -
  have d: "is_sphere (inspect (surf\<lparr>TryGetSphere := sp\<rparr>) face) = (sp \<noteq> None)"
    by (simp add: inspect_def Let_def)
  have b: "batch_process host (map (set_sphere_object k) sel) = batch_process host sel"
    by (simp add: batch_process_def process_all_sphere)
  from inspect_sphere [where surf = surf and sp = sp and face = face] d
    check_surface_sphere [of k sel]
    analyze_brep_sphere [of k sel] create_line_cylinder_sphere [of host k sel] b
  show ?thesis by blast
qed

theorem sphere_fit_noninterference_witness:
  "map_sum id (map_option SUMMARY)
     (check_surface (map (set_sphere_object (\<lambda>s. Some \<lparr>sphere_Radius = 1\<rparr>))
        [brep_object [cone_face]])) = Inr (Some CONE)
   \<and> is_sphere (inspect (cone_surface\<lparr>TryGetSphere := Some \<lparr>sphere_Radius = 1\<rparr>\<rparr>) None)
   \<and> \<not> is_sphere (inspect cone_surface None)
   \<and> SUMMARY (inspect (cone_surface\<lparr>TryGetSphere := Some \<lparr>sphere_Radius = 1\<rparr>\<rparr>) None) =
       SUMMARY (inspect cone_surface None)"
proof -
  note inst = sphere_fit_noninterference [where surf = cone_surface
      and sp = "Some \<lparr>sphere_Radius = 1\<rparr>" and face = None
      and k = "\<lambda>s. Some \<lparr>sphere_Radius = 1\<rparr>" and sel = "[brep_object [cone_face]]"
      and host = accepting_host]
  have plain: "check_surface [brep_object [cone_face]] =
      Inr (Some (inspect cone_surface (Some (of_BrepFace cone_face))))"
    by (simp add: check_surface_def brep_object_def coerce_def get_surface_def cone_face_def)
  have s: "SUMMARY (inspect cone_surface (Some (of_BrepFace cone_face))) = CONE"
    by (simp add: inspect_def cone_surface_def)
  from inst have a: "map_sum id (map_option SUMMARY)
     (check_surface (map (set_sphere_object (\<lambda>s. Some \<lparr>sphere_Radius = 1\<rparr>))
        [brep_object [cone_face]])) =
      map_sum id (map_option SUMMARY) (check_surface [brep_object [cone_face]])"
    by blast
  have a': "map_sum id (map_option SUMMARY)
     (check_surface (map (set_sphere_object (\<lambda>s. Some \<lparr>sphere_Radius = 1\<rparr>))
        [brep_object [cone_face]])) = Inr (Some CONE)"
    unfolding a by (simp add: plain s)
  from inst have b: "is_sphere (inspect (cone_surface\<lparr>TryGetSphere := Some \<lparr>sphere_Radius = 1\<rparr>\<rparr>) None)"
    by simp
  have c: "\<not> is_sphere (inspect cone_surface None)"
    by (simp add: inspect_def cone_surface_def)
  from inst have d: "SUMMARY (inspect (cone_surface\<lparr>TryGetSphere := Some \<lparr>sphere_Radius = 1\<rparr>\<rparr>) None) =
       SUMMARY (inspect cone_surface None)"
    by blast
  from a' b c d show ?thesis by blast
qed

section \<open>The branches of the batch script\<close>

lemma process_surface_cylinder_no_face:
  assumes "ObjectType obj = 8 \<or> ObjectType obj = 16"
    and "coerce (ObjectType obj) obj = Some geo"
    and "get_surface_batch geo = Inr (surf, None)"
    and "TryGetCone surf = None"
    and "TryGetCylinder surf = Some cyl"
  shows "process_surface host obj st = Inr (say CYLINDER st)"
  using assms by (auto simp add: process_surface_def Let_def)

lemma process_surface_cylinder_no_domain:
  assumes "ObjectType obj = 8 \<or> ObjectType obj = 16"
    and "coerce (ObjectType obj) obj = Some geo"
    and "get_surface_batch geo = Inr (surf, Some f)"
    and "face_Domain f = None"
    and "TryGetCone surf = None"
    and "TryGetCylinder surf = Some cyl"
  shows "process_surface host obj st = Inl AttributeError"
  using assms by (auto simp add: process_surface_def Let_def)

lemma process_surface_other:
  assumes "ObjectType obj = 8 \<or> ObjectType obj = 16"
    and "coerce (ObjectType obj) obj = Some geo"
    and "get_surface_batch geo = Inr (surf, face)"
    and "TryGetCone surf = None"
    and "TryGetCylinder surf = None"
  shows "process_surface host obj st = Inr (say OTHER_TYPE st)"
  using assms by (auto simp add: process_surface_def Let_def)

lemma count_face_cylinder_only:
  assumes "TryGetCylinder (UnderlyingSurface f) \<noteq> None"
  shows "spec_classify f = TagCylinder \<and> cylinders (count_face f c) = cylinders c + 1
     \<and> cones (count_face f c) = cones c \<and> planes (count_face f c) = planes c
     \<and> nurbs (count_face f c) = nurbs c \<and> others (count_face f c) = others c"
proof -
  from assms have t: "spec_classify f = TagCylinder"
    by (simp add: spec_classify_def)
  then show ?thesis
    by (simp add: count_face_cylinders count_face_cones count_face_planes count_face_nurbs
        count_face_others is_freeform_def)
qed

lemma summary_precedence:
  "TryGetCone surf \<noteq> None \<Longrightarrow> SUMMARY (inspect surf face) = CONE"
  "TryGetCone surf = None \<Longrightarrow> TryGetCylinder surf \<noteq> None \<Longrightarrow>
     SUMMARY (inspect surf face) = CYLINDER"
  by (simp_all add: inspect_def Let_def)

section \<open>The batch run\<close>

lemma say_calls: "say l st = \<lparr>calls = calls st @ [Print_call l], lines_created = lines_created st\<rparr>"
  by (simp add: say_def)

lemma process_surface_shape:
  assumes "process_surface host obj st = Inr st'"
  shows "st' = st \<or> (\<exists>l. st' = say l st)
     \<or> (\<exists>l s e color. st' = add_colored_line host s e color (say l st))"
  using assms
  by (auto simp add: process_surface_def Let_def
      split: if_splits option.splits sum.splits prod.splits) blast+

lemma add_colored_line_counts:
  "lines_created (add_colored_line host s e color st) + length (filter is_created (calls st)) =
     lines_created st + length (filter is_created (calls (add_colored_line host s e color st)))"
  "length (filter is_AddLine (calls (add_colored_line host s e color st))) =
     length (filter is_AddLine (calls st)) + 1"
  "length (filter is_created (calls (add_colored_line host s e color st))) \<le>
     length (filter is_created (calls st)) + 1"
  "host (calls st) s e \<noteq> None \<Longrightarrow>
     length (filter is_created (calls (add_colored_line host s e color st))) =
     length (filter is_created (calls st)) + 1"
  by (cases "host (calls st) s e"; simp add: add_colored_line_calls)+

lemma say_counts:
  "lines_created (say l st) = lines_created st"
  "filter is_created (calls (say l st)) = filter is_created (calls st)"
  "filter is_AddLine (calls (say l st)) = filter is_AddLine (calls st)"
  by (simp_all add: say_calls)

lemma process_surface_counts:
  assumes "process_surface host obj st = Inr st'"
  shows "lines_created st' + length (filter is_created (calls st)) =
           lines_created st + length (filter is_created (calls st'))"
    and "length (filter is_AddLine (calls st')) \<le> length (filter is_AddLine (calls st)) + 1"
    and "length (filter is_created (calls st')) + length (filter is_AddLine (calls st)) \<le>
           length (filter is_created (calls st)) + length (filter is_AddLine (calls st'))"
    and "(\<forall>cs s e. host cs s e \<noteq> None) \<Longrightarrow>
           length (filter is_created (calls st')) + length (filter is_AddLine (calls st)) =
           length (filter is_created (calls st)) + length (filter is_AddLine (calls st'))"
proof -
  consider (same) "st' = st" | (said) l where "st' = say l st"
    | (line) l s e color where "st' = add_colored_line host s e color (say l st)"
    using process_surface_shape [OF assms] by blast
  note shape = this
  show "lines_created st' + length (filter is_created (calls st)) =
           lines_created st + length (filter is_created (calls st'))"
  proof (cases rule: shape)
    case line
    with add_colored_line_counts(1) [of host s e color "say l st"] show ?thesis
      by (simp add: say_counts)
  qed (simp_all add: say_counts)
  show "length (filter is_AddLine (calls st')) \<le> length (filter is_AddLine (calls st)) + 1"
  proof (cases rule: shape)
    case line
    with add_colored_line_counts(2) [of host s e color "say l st"] show ?thesis
      by (simp add: say_counts)
  qed (simp_all add: say_counts)
  show "length (filter is_created (calls st')) + length (filter is_AddLine (calls st)) \<le>
           length (filter is_created (calls st)) + length (filter is_AddLine (calls st'))"
  proof (cases rule: shape)
    case line
    with add_colored_line_counts(2,3) [of host s e color "say l st"] show ?thesis
      by (simp add: say_counts)
  qed (simp_all add: say_counts)
  show "length (filter is_created (calls st')) + length (filter is_AddLine (calls st)) =
           length (filter is_created (calls st)) + length (filter is_AddLine (calls st'))"
    if r: "\<forall>cs s e. host cs s e \<noteq> None"
  proof (cases rule: shape)
    case line
    from r have "host (calls (say l st)) s e \<noteq> None" by blast
    from add_colored_line_counts(4) [of host "say l st" s e color, OF this]
      add_colored_line_counts(2) [of host s e color "say l st"] line
    show ?thesis
      by (simp add: say_counts)
  qed (simp_all add: say_counts)
qed

lemma process_all_counts:
  assumes "process_all host sel st = Inr st'"
  shows "lines_created st' + length (filter is_created (calls st)) =
           lines_created st + length (filter is_created (calls st'))
     \<and> length (filter is_AddLine (calls st')) \<le> length (filter is_AddLine (calls st)) + length sel
     \<and> length (filter is_created (calls st')) + length (filter is_AddLine (calls st)) \<le>
           length (filter is_created (calls st)) + length (filter is_AddLine (calls st'))
     \<and> ((\<forall>cs s e. host cs s e \<noteq> None) \<longrightarrow>
           length (filter is_created (calls st')) + length (filter is_AddLine (calls st)) =
           length (filter is_created (calls st)) + length (filter is_AddLine (calls st')))"
  using assms
proof (induction sel arbitrary: st)
  case Nil
  then show ?case by simp
next
  case (Cons obj sel)
  from Cons.prems obtain mid where
    step: "process_surface host obj st = Inr mid" and rest: "process_all host sel mid = Inr st'"
    by (auto split: sum.splits)
  note c = process_surface_counts [OF step]
  note ih = Cons.IH [OF rest]
  from c(1) ih have a: "lines_created st' + length (filter is_created (calls st)) =
           lines_created st + length (filter is_created (calls st'))"
    by linarith
  from c(2) ih have b: "length (filter is_AddLine (calls st')) \<le>
      length (filter is_AddLine (calls st)) + length (obj # sel)"
    by simp
  from c(3) ih have d: "length (filter is_created (calls st')) + length (filter is_AddLine (calls st)) \<le>
           length (filter is_created (calls st)) + length (filter is_AddLine (calls st'))"
    by linarith
  have e: "length (filter is_created (calls st')) + length (filter is_AddLine (calls st)) =
           length (filter is_created (calls st)) + length (filter is_AddLine (calls st'))"
    if r: "\<forall>cs s e. host cs s e \<noteq> None"
  proof -
    from ih r have "length (filter is_created (calls st')) + length (filter is_AddLine (calls mid)) =
           length (filter is_created (calls mid)) + length (filter is_AddLine (calls st'))"
      by blast
    with c(4) [OF r] show ?thesis by linarith
  qed
  from a b d e show ?case by blast
qed

lemma process_all_append:
  "process_all host (xs @ ys) st =
     (case process_all host xs st of
        Inl err \<Rightarrow> Inl err
      | Inr st' \<Rightarrow> process_all host ys st')"
  by (induction xs arbitrary: st) (simp_all split: sum.splits)

text \<open>
  C6 (as the code has it). The counter of a batch run that ends normally is the number of
  line requests for which the host returned a line. It is at most the number of requests
  made, which is at most the number of items, and it equals the number of requests when
  the host returns a line for every request.
\<close>

theorem created_count:
  assumes "batch_process host sel = Inr st"
  shows "lines_created st = length (filter is_created (calls st))
     \<and> lines_created st \<le> length (filter is_AddLine (calls st))
     \<and> length (filter is_AddLine (calls st)) \<le> length sel
     \<and> ((\<forall>cs s e. host cs s e \<noteq> None) \<longrightarrow>
          lines_created st = length (filter is_AddLine (calls st)))"
  using process_all_counts [of host sel "\<lparr>calls = [], lines_created = 0\<rparr>" st] assms
  by (simp add: batch_process_def)

lemma item_cylinder:
  "process_surface host (brep_object [cylinder_face r v0 v1]) st =
     Inr (add_colored_line host \<lparr>X = 0, Y = 0, Z = v0\<rparr> \<lparr>X = 0, Y = 0, Z = v1\<rparr> [0, 255, 0]
            (say CYLINDER st))"
proof -
  let ?f = "cylinder_face r v0 v1"
  have t: "ObjectType (brep_object [?f]) = 8 \<or> ObjectType (brep_object [?f]) = 16"
    by (simp add: brep_object_def)
  have g: "coerce (ObjectType (brep_object [?f])) (brep_object [?f]) = Some (GBrep \<lparr>Faces = [?f]\<rparr>)"
    by (rule brep_object_surface)
  have sf: "get_surface_batch (GBrep \<lparr>Faces = [?f]\<rparr>) = Inr (cylinder_surface r, Some (of_BrepFace ?f))"
    by (simp add: get_surface_batch_def cylinder_face_def)
  have d: "face_Domain (of_BrepFace ?f) = Some (FaceDomain ?f)"
    and p: "face_PointAt (of_BrepFace ?f) = PointAt ?f"
    by (simp_all add: of_BrepFace_def)
  have nc: "TryGetCone (cylinder_surface r) = None"
    and cy: "TryGetCylinder (cylinder_surface r) =
      Some \<lparr>cyl_Radius = r, cyl_Axis = z_axis, cyl_Center = origin\<rparr>"
    by (simp_all add: cylinder_surface_def)
  from process_surface_cylinder [OF t g sf d nc cy, of host st] show ?thesis
    by (simp add: p cylinder_face_segment)
qed

lemma item_cone:
  "process_surface host (brep_object [cone_face]) st =
     Inr (add_colored_line host \<lparr>X = - (1 / 2), Y = 0, Z = - 2\<rparr> \<lparr>X = - (1 / 2), Y = 0, Z = 3\<rparr>
            [255, 0, 0] (say CONE st))"
proof -
  let ?cone = "\<lparr>cone_Radius = 1, cone_AngleInDegrees = 45, cone_ApexPoint = origin,
                cone_Axis = z_axis\<rparr>"
  have t: "ObjectType (brep_object [cone_face]) = 8 \<or> ObjectType (brep_object [cone_face]) = 16"
    by (simp add: brep_object_def)
  have g: "coerce (ObjectType (brep_object [cone_face])) (brep_object [cone_face]) =
      Some (GBrep \<lparr>Faces = [cone_face]\<rparr>)"
    by (rule brep_object_surface)
  have sf: "get_surface_batch (GBrep \<lparr>Faces = [cone_face]\<rparr>) =
      Inr (cone_surface, Some (of_BrepFace cone_face))"
    by (simp add: get_surface_batch_def cone_face_def)
  have k: "TryGetCone cone_surface = Some ?cone"
    by (simp add: cone_surface_def)
  have line: "cone_axis_line ?cone (Some (of_BrepFace cone_face)) =
      (\<lparr>X = - (1 / 2), Y = 0, Z = - 2\<rparr>, \<lparr>X = - (1 / 2), Y = 0, Z = 3\<rparr>)"
    by (simp add: cone_axis_line_def of_BrepFace_def cone_face_def Let_def pt_sub_def pt_add_def
        vec_mul_def z_axis_def)
  from process_surface_cone [OF t g sf k, of host st] show ?thesis
    by (simp add: line)
qed

lemma item_other:
  "process_surface host (brep_object [plane_face]) st = Inr (say OTHER_TYPE st)"
  "process_surface host (brep_object [freeform_face]) st = Inr (say OTHER_TYPE st)"
  by (simp_all add: process_surface_def brep_object_def coerce_def get_surface_batch_def
      plane_face_def freeform_face_def)

lemma item_bare_cylinder:
  "process_surface host (surface_object (bare_surface (cylinder_surface r))) st =
     Inr (say CYLINDER st)"
  by (simp add: process_surface_def surface_object_def bare_surface_def coerce_def
      get_surface_batch_def of_SurfaceGeo_def cylinder_surface_def)

lemma batch_items_accepted:
  "batch_process accepting_host batch_items =
     Inr \<lparr>calls =
            [Print_call CYLINDER,
             AddLine_call \<lparr>X = 0, Y = 0, Z = 0\<rparr> \<lparr>X = 0, Y = 0, Z = 10\<rparr> (Some 1),
             ObjectColor_call 1 [0, 255, 0],
             Print_call OTHER_TYPE,
             Print_call CONE,
             AddLine_call \<lparr>X = - (1 / 2), Y = 0, Z = - 2\<rparr> \<lparr>X = - (1 / 2), Y = 0, Z = 3\<rparr> (Some 5),
             ObjectColor_call 5 [255, 0, 0],
             Print_call OTHER_TYPE],
          lines_created = 2\<rparr>"
  by (simp add: batch_process_def batch_items_def item_cylinder item_cone item_other
      add_colored_line_calls say_calls accepting_host_def)

theorem created_count_witness:
  "batch_process accepting_host batch_items =
     Inr \<lparr>calls =
            [Print_call CYLINDER,
             AddLine_call \<lparr>X = 0, Y = 0, Z = 0\<rparr> \<lparr>X = 0, Y = 0, Z = 10\<rparr> (Some 1),
             ObjectColor_call 1 [0, 255, 0],
             Print_call OTHER_TYPE,
             Print_call CONE,
             AddLine_call \<lparr>X = - (1 / 2), Y = 0, Z = - 2\<rparr> \<lparr>X = - (1 / 2), Y = 0, Z = 3\<rparr> (Some 5),
             ObjectColor_call 5 [255, 0, 0],
             Print_call OTHER_TYPE],
          lines_created = 2\<rparr>
   \<and> length (filter is_created
        [Print_call CYLINDER,
         AddLine_call \<lparr>X = 0, Y = 0, Z = 0\<rparr> \<lparr>X = 0, Y = 0, Z = 10\<rparr> (Some 1),
         ObjectColor_call 1 [0, 255, 0],
         Print_call OTHER_TYPE,
         Print_call CONE,
         AddLine_call \<lparr>X = - (1 / 2), Y = 0, Z = - 2\<rparr> \<lparr>X = - (1 / 2), Y = 0, Z = 3\<rparr> (Some 5),
         ObjectColor_call 5 [255, 0, 0],
         Print_call OTHER_TYPE]) = 2
   \<and> (2::nat) \<le> length batch_items"
  using created_count [OF batch_items_accepted] batch_items_accepted
  by (simp add: batch_items_def)

theorem created_count_counterexample:
  "batch_process refusing_host [brep_object [cone_face]] =
     Inr \<lparr>calls = [Print_call CONE,
                    AddLine_call \<lparr>X = - (1 / 2), Y = 0, Z = - 2\<rparr> \<lparr>X = - (1 / 2), Y = 0, Z = 3\<rparr>
                      None],
          lines_created = 0\<rparr>
   \<and> batch_process accepting_host [brep_object [cone_face]] =
     Inr \<lparr>calls = [Print_call CONE,
                    AddLine_call \<lparr>X = - (1 / 2), Y = 0, Z = - 2\<rparr> \<lparr>X = - (1 / 2), Y = 0, Z = 3\<rparr>
                      (Some 1),
                    ObjectColor_call 1 [255, 0, 0]],
          lines_created = 1\<rparr>"
  by (simp add: batch_process_def item_cone add_colored_line_calls say_calls accepting_host_def
      refusing_host_def)

section \<open>The batch run against the planner\<close>

lemma requests_append: "requests (cs @ cs') = requests cs @ requests cs'"
  by (induction cs rule: requests.induct) simp_all

lemma answered_append: "answered (cs @ cs') = answered cs @ answered cs'"
  by (induction cs rule: answered.induct) simp_all

lemma colours_append: "colours (cs @ cs') = colours cs @ colours cs'"
  by (induction cs rule: colours.induct) simp_all

lemma coloured_append:
  "length rs = length oks \<Longrightarrow>
     coloured (rs @ rs') (oks @ oks') = coloured rs oks @ coloured rs' oks'"
  by (simp add: coloured_def)

lemma cone_axis_line_spec:
  "cone_axis_line cone face =
     (pt_sub (spec_cone_reference cone face) (vec_mul (cone_Axis cone) 2.5),
      pt_add (spec_cone_reference cone face) (vec_mul (cone_Axis cone) 2.5))"
  by (simp add: cone_axis_line_def spec_cone_reference_def Let_def split: option.splits)

lemma add_colored_line_new:
  "\<exists>new. calls (add_colored_line host s e color st) = calls st @ new
     \<and> requests new = [(s, e)]
     \<and> length (answered new) = 1
     \<and> colours new = coloured [((s, e), color)] (answered new)
     \<and> lines_created (add_colored_line host s e color st) =
         lines_created st + length (filter id (answered new))"
  by (cases "host (calls st) s e") (simp_all add: add_colored_line_calls coloured_def)


lemma line_item:
  "\<exists>new. calls (add_colored_line host s e color (say l st)) = calls st @ new
     \<and> requests new = map fst [((s, e), color)]
     \<and> length (answered new) = length [((s, e), color)]
     \<and> colours new = coloured [((s, e), color)] (answered new)
     \<and> lines_created (add_colored_line host s e color (say l st)) =
         lines_created st + length (filter id (answered new))"
proof -
  from add_colored_line_new [of host s e color "say l st"] obtain new where
    n: "calls (add_colored_line host s e color (say l st)) = calls (say l st) @ new"
      "requests new = [(s, e)]" "length (answered new) = 1"
      "colours new = coloured [((s, e), color)] (answered new)"
      "lines_created (add_colored_line host s e color (say l st)) =
         lines_created (say l st) + length (filter id (answered new))"
    by blast
  let ?new = "Print_call l # new"
  from n have "calls (add_colored_line host s e color (say l st)) = calls st @ ?new"
    "requests ?new = map fst [((s, e), color)]"
    "length (answered ?new) = length [((s, e), color)]"
    "colours ?new = coloured [((s, e), color)] (answered ?new)"
    "lines_created (add_colored_line host s e color (say l st)) =
         lines_created st + length (filter id (answered ?new))"
    by (simp_all add: say_calls)
  then show ?thesis by blast
qed

lemma print_item:
  "\<exists>new. calls (say l st) = calls st @ new
     \<and> requests new = map fst []
     \<and> length (answered new) = length ([] :: ((Point3d \<times> Point3d) \<times> int list) list)
     \<and> colours new = coloured [] (answered new)
     \<and> lines_created (say l st) = lines_created st + length (filter id (answered new))"
proof -
  have "calls (say l st) = calls st @ [Print_call l]" "requests [Print_call l] = map fst []"
    "length (answered [Print_call l]) = length ([] :: ((Point3d \<times> Point3d) \<times> int list) list)"
    "colours [Print_call l] = coloured [] (answered [Print_call l])"
    "lines_created (say l st) = lines_created st + length (filter id (answered [Print_call l]))"
    by (simp_all add: say_calls coloured_def)
  then show ?thesis by blast
qed

lemma skip_item:
  "\<exists>new. calls st = calls st @ new
     \<and> requests new = map fst []
     \<and> length (answered new) = length ([] :: ((Point3d \<times> Point3d) \<times> int list) list)
     \<and> colours new = coloured [] (answered new)
     \<and> lines_created st = lines_created st + length (filter id (answered new))"
proof -
  have "calls st = calls st @ []" "requests [] = map fst []"
    "length (answered []) = length ([] :: ((Point3d \<times> Point3d) \<times> int list) list)"
    "colours [] = coloured [] (answered [])"
    "lines_created st = lines_created st + length (filter id (answered []))"
    by (simp_all add: coloured_def)
  then show ?thesis by blast
qed

lemma process_surface_new:
  assumes run: "process_surface host obj st = Inr st'"
    and one: "\<not> fits_both obj"
  shows "\<exists>new. calls st' = calls st @ new
     \<and> requests new = map fst (spec_item_requests obj)
     \<and> length (answered new) = length (spec_item_requests obj)
     \<and> colours new = coloured (spec_item_requests obj) (answered new)
     \<and> lines_created st' = lines_created st + length (filter id (answered new))"
proof (cases "item_surface obj")
  case None
  then have p: "spec_item_requests obj = []"
    by (simp add: spec_item_requests_def)
  from None run have "st' = st"
    by (auto simp add: item_surface_def process_surface_def Let_def
        split: if_splits option.splits sum.splits)
  with p skip_item [of st] show ?thesis by simp
next
  case (Some p)
  obtain surf face where p: "p = (surf, face)" by (cases p)
  from Some p obtain geo where
    t: "ObjectType obj = 8 \<or> ObjectType obj = 16" and
    g: "coerce (ObjectType obj) obj = Some geo" and
    sf: "get_surface_batch geo = Inr (surf, face)"
    by (auto simp add: item_surface_def split: if_splits option.splits sum.splits)
  show ?thesis
  proof (cases "TryGetCone surf")
    case (Some cone)
    with one \<open>item_surface obj = Some p\<close> p have nocyl: "TryGetCylinder surf = None"
      by (simp add: fits_both_def)
    with Some \<open>item_surface obj = Some p\<close> p have pl: "spec_item_requests obj =
        [((pt_sub (spec_cone_reference cone face) (vec_mul (cone_Axis cone) 2.5),
           pt_add (spec_cone_reference cone face) (vec_mul (cone_Axis cone) 2.5)),
          [255, 0, 0])]"
      by (simp add: spec_item_requests_def spec_request_def)
    from process_surface_cone [OF t g sf Some, of host st] run
    have "st' = add_colored_line host
        (pt_sub (spec_cone_reference cone face) (vec_mul (cone_Axis cone) 2.5))
        (pt_add (spec_cone_reference cone face) (vec_mul (cone_Axis cone) 2.5))
        [255, 0, 0] (say CONE st)"
      by (simp add: cone_axis_line_spec)
    with pl line_item [of host _ _ "[255, 0, 0]" CONE st] show ?thesis
      by simp
  next
    case None
    show ?thesis
    proof (cases "TryGetCylinder surf")
      case nocyl: None
      with None \<open>item_surface obj = Some p\<close> p have pl: "spec_item_requests obj = []"
        by (simp add: spec_item_requests_def spec_request_def)
      from process_surface_other [OF t g sf None nocyl, of host st] run
      have "st' = say OTHER_TYPE st" by simp
      with pl print_item [of OTHER_TYPE st] show ?thesis by simp
    next
      case (Some cyl)
      show ?thesis
      proof (cases face)
        case noface: None
        with Some \<open>item_surface obj = Some p\<close> p have pl: "spec_item_requests obj = []"
          by (simp add: spec_item_requests_def spec_request_def)
        from process_surface_cylinder_no_face [OF t g _ None Some, of host st] sf noface run
        have "st' = say CYLINDER st" by simp
        with pl print_item [of CYLINDER st] show ?thesis by simp
      next
        case f: (Some fr)
        show ?thesis
        proof (cases "face_Domain fr")
          case nodom: None
          from process_surface_cylinder_no_domain [OF t g _ nodom None Some, of host st] sf f run
          show ?thesis by simp
        next
          case d: (Some domain)
          with Some f \<open>item_surface obj = Some p\<close> p have pl: "spec_item_requests obj =
              [(spec_cylinder_segment cyl domain (face_PointAt fr), [0, 255, 0])]"
            by (simp add: spec_item_requests_def spec_request_def)
          from process_surface_cylinder [OF t g _ d None Some, of host st] sf f run
          have "st' = add_colored_line host
              (fst (spec_cylinder_segment cyl domain (face_PointAt fr)))
              (snd (spec_cylinder_segment cyl domain (face_PointAt fr)))
              [0, 255, 0] (say CYLINDER st)"
            by (simp add: cylinder_axis_line_spec)
          with pl line_item [of host "fst (spec_cylinder_segment cyl domain (face_PointAt fr))"
              "snd (spec_cylinder_segment cyl domain (face_PointAt fr))" "[0, 255, 0]"
              CYLINDER st]
          show ?thesis by simp
        qed
      qed
    qed
  qed
qed

lemma process_all_new:
  assumes "process_all host sel st = Inr st'"
    and "\<forall>obj\<in>set sel. \<not> fits_both obj"
  shows "\<exists>new. calls st' = calls st @ new
     \<and> requests new = map fst (planned sel)
     \<and> length (answered new) = length (planned sel)
     \<and> colours new = coloured (planned sel) (answered new)
     \<and> lines_created st' = lines_created st + length (filter id (answered new))"
  using assms
proof (induction sel arbitrary: st)
  case Nil
  with skip_item [of st] show ?case by (simp add: planned_def)
next
  case (Cons obj sel)
  from Cons.prems(1) obtain mid where
    step: "process_surface host obj st = Inr mid" and rest: "process_all host sel mid = Inr st'"
    by (auto split: sum.splits)
  from Cons.prems(2) have one: "\<not> fits_both obj" and more: "\<forall>obj\<in>set sel. \<not> fits_both obj"
    by simp_all
  from process_surface_new [OF step one] obtain n1 where
    n1: "calls mid = calls st @ n1" "requests n1 = map fst (spec_item_requests obj)"
      "length (answered n1) = length (spec_item_requests obj)"
      "colours n1 = coloured (spec_item_requests obj) (answered n1)"
      "lines_created mid = lines_created st + length (filter id (answered n1))"
    by blast
  from Cons.IH [OF rest more] obtain n2 where
    n2: "calls st' = calls mid @ n2" "requests n2 = map fst (planned sel)"
      "length (answered n2) = length (planned sel)"
      "colours n2 = coloured (planned sel) (answered n2)"
      "lines_created st' = lines_created mid + length (filter id (answered n2))"
    by blast
  have pl: "planned (obj # sel) = spec_item_requests obj @ planned sel"
    by (simp add: planned_def)
  from n1 n2 have "calls st' = calls st @ (n1 @ n2)"
    "requests (n1 @ n2) = map fst (planned (obj # sel))"
    "length (answered (n1 @ n2)) = length (planned (obj # sel))"
    "colours (n1 @ n2) = coloured (planned (obj # sel)) (answered (n1 @ n2))"
    "lines_created st' = lines_created st + length (filter id (answered (n1 @ n2)))"
    by (simp_all add: pl requests_append answered_append colours_append coloured_append)
  then show ?case by blast
qed


lemma process_surface_raises:
  "(\<exists>err. process_surface host obj st = Inl err) \<longleftrightarrow> raises obj"
  by (auto simp add: process_surface_def raises_def Let_def
      split: if_splits option.splits sum.splits prod.splits)

lemma process_all_ends:
  "(\<exists>st'. process_all host sel st = Inr st') \<longleftrightarrow> (\<forall>obj\<in>set sel. \<not> raises obj)"
proof (induction sel arbitrary: st)
  case Nil
  then show ?case by simp
next
  case (Cons obj sel)
  show ?case
  proof (cases "process_surface host obj st")
    case (Inl err)
    then have "raises obj" using process_surface_raises [of host obj st] by blast
    with Inl show ?thesis by simp
  next
    case (Inr mid)
    then have "\<not> raises obj" using process_surface_raises [of host obj st] by auto
    with Inr Cons.IH [of mid] show ?thesis by simp
  qed
qed

lemma length_requests: "length (requests cs) = length (filter is_AddLine cs)"
  by (induction cs rule: requests.induct) simp_all

lemma length_answered: "length (filter id (answered cs)) = length (filter is_created cs)"
  "length (answered cs) = length (filter is_AddLine cs)"
  by (induction cs rule: answered.induct) simp_all

lemma coloured_all:
  assumes "length rs = length oks" and "length (filter id oks) = length oks"
  shows "coloured rs oks = map snd rs"
proof -
  from assms(2) have "\<forall>ok\<in>set oks. ok"
    by (metis filter_id_conv id_apply length_filter_less less_irrefl_nat)
  then have "filter (\<lambda>(r, ok). ok) (zip rs oks) = zip rs oks"
    by (auto simp add: filter_id_conv dest: set_zip_rightD)
  then have "coloured rs oks = map snd (map fst (zip rs oks))"
    by (simp add: coloured_def case_prod_unfold comp_def)
  with assms(1) show ?thesis by simp
qed

lemma batch_items_planned:
  "planned batch_items =
     [((\<lparr>X = 0, Y = 0, Z = 0\<rparr>, \<lparr>X = 0, Y = 0, Z = 10\<rparr>), [0, 255, 0]),
      ((\<lparr>X = - (1 / 2), Y = 0, Z = - 2\<rparr>, \<lparr>X = - (1 / 2), Y = 0, Z = 3\<rparr>), [255, 0, 0])]"
proof -
  have c: "spec_item_requests (brep_object [cylinder_face 2 0 10]) =
      [((\<lparr>X = 0, Y = 0, Z = 0\<rparr>, \<lparr>X = 0, Y = 0, Z = 10\<rparr>), [0, 255, 0])]"
    using cylinder_face_segment [of 2 0 10]
    by (simp add: spec_item_requests_def item_surface_def brep_object_def coerce_def
        get_surface_batch_def spec_request_def of_BrepFace_def cylinder_axis_line_spec
        cylinder_face_def cylinder_surface_def)
  have k: "spec_item_requests (brep_object [cone_face]) =
      [((\<lparr>X = - (1 / 2), Y = 0, Z = - 2\<rparr>, \<lparr>X = - (1 / 2), Y = 0, Z = 3\<rparr>), [255, 0, 0])]"
    by (simp add: spec_item_requests_def item_surface_def brep_object_def coerce_def
        get_surface_batch_def spec_request_def spec_cone_reference_def of_BrepFace_def
        cone_face_def cone_surface_def pt_sub_def pt_add_def vec_mul_def z_axis_def)
  have o: "spec_item_requests (brep_object [plane_face]) = []"
    "spec_item_requests (brep_object [freeform_face]) = []"
    by (simp_all add: spec_item_requests_def item_surface_def brep_object_def coerce_def
        get_surface_batch_def spec_request_def plane_face_def freeform_face_def)
  show ?thesis
    by (simp add: planned_def batch_items_def c k o)
qed

lemma batch_items_refused:
  "batch_process refusing_host batch_items =
     Inr \<lparr>calls =
            [Print_call CYLINDER,
             AddLine_call \<lparr>X = 0, Y = 0, Z = 0\<rparr> \<lparr>X = 0, Y = 0, Z = 10\<rparr> None,
             Print_call OTHER_TYPE,
             Print_call CONE,
             AddLine_call \<lparr>X = - (1 / 2), Y = 0, Z = - 2\<rparr> \<lparr>X = - (1 / 2), Y = 0, Z = 3\<rparr> None,
             Print_call OTHER_TYPE],
          lines_created = 0\<rparr>"
  by (simp add: batch_process_def batch_items_def item_cylinder item_cone item_other
      add_colored_line_calls say_calls refusing_host_def)

lemma batch_items_fit_one: "\<forall>obj\<in>set batch_items. \<not> fits_both obj"
  by (simp add: batch_items_def fits_both_def item_surface_def brep_object_def coerce_def
      get_surface_batch_def cylinder_face_def cylinder_surface_def cone_face_def cone_surface_def
      plane_face_def freeform_face_def)


text \<open>
  C4 (as the code has it). A batch run ends normally exactly when no item raises; an
  item raises when it is a polysurface without faces, or when it passes the cylinder fit
  and not the cone fit and its face has no domains. For
  a run that ends normally over items none of which passes both the cylinder and the cone
  fit, the lines asked of the host are, in input order, the requests of the planner: the
  cone segment for an item classified Cone, the cylinder segment for an item classified
  Cylinder that has a face with domains, nothing for a Cylinder item without a face and
  for any other item. The colours given are, in order, those of the requests for which
  the host returned a line (red for a cone, green for a cylinder), and the counter is the
  number of these. When the host returns every line, the colours are those of all the
  requests and the counter is their number. For the items cylinder, plane, cone,
  freeform, each a face, the planner gives two requests, the green one before the red
  one, and with a host that returns every line the counter is 2.
\<close>

theorem batch_planning:
  "(batch_process host sel = Inr st \<and> (\<forall>obj\<in>set sel. \<not> fits_both obj) \<longrightarrow>
      requests (calls st) = map fst (planned sel)
      \<and> length (answered (calls st)) = length (planned sel)
      \<and> colours (calls st) = coloured (planned sel) (answered (calls st))
      \<and> lines_created st = length (filter id (answered (calls st)))
      \<and> ((\<forall>cs s e. host cs s e \<noteq> None) \<longrightarrow>
           colours (calls st) = map snd (planned sel)
           \<and> lines_created st = length (planned sel)))
   \<and> ((\<exists>st'. batch_process host sel = Inr st') \<longleftrightarrow> (\<forall>obj\<in>set sel. \<not> raises obj))
   \<and> planned batch_items =
       [((\<lparr>X = 0, Y = 0, Z = 0\<rparr>, \<lparr>X = 0, Y = 0, Z = 10\<rparr>), [0, 255, 0]),
        ((\<lparr>X = - (1 / 2), Y = 0, Z = - 2\<rparr>, \<lparr>X = - (1 / 2), Y = 0, Z = 3\<rparr>), [255, 0, 0])]
   \<and> batch_process accepting_host batch_items =
       Inr \<lparr>calls =
              [Print_call CYLINDER,
               AddLine_call \<lparr>X = 0, Y = 0, Z = 0\<rparr> \<lparr>X = 0, Y = 0, Z = 10\<rparr> (Some 1),
               ObjectColor_call 1 [0, 255, 0],
               Print_call OTHER_TYPE,
               Print_call CONE,
               AddLine_call \<lparr>X = - (1 / 2), Y = 0, Z = - 2\<rparr> \<lparr>X = - (1 / 2), Y = 0, Z = 3\<rparr>
                 (Some 5),
               ObjectColor_call 5 [255, 0, 0],
               Print_call OTHER_TYPE],
            lines_created = 2\<rparr>"
proof -
  have run: "requests (calls st) = map fst (planned sel)
      \<and> length (answered (calls st)) = length (planned sel)
      \<and> colours (calls st) = coloured (planned sel) (answered (calls st))
      \<and> lines_created st = length (filter id (answered (calls st)))
      \<and> ((\<forall>cs s e. host cs s e \<noteq> None) \<longrightarrow>
           colours (calls st) = map snd (planned sel)
           \<and> lines_created st = length (planned sel))"
    if ok: "batch_process host sel = Inr st" and one: "\<forall>obj\<in>set sel. \<not> fits_both obj"
  proof -
    from ok have pa: "process_all host sel \<lparr>calls = [], lines_created = 0\<rparr> = Inr st"
      by (simp add: batch_process_def)
    from process_all_new [OF pa one] have
      a: "requests (calls st) = map fst (planned sel)" and
      b: "length (answered (calls st)) = length (planned sel)" and
      c: "colours (calls st) = coloured (planned sel) (answered (calls st))" and
      d: "lines_created st = length (filter id (answered (calls st)))"
      by auto
    have e: "colours (calls st) = map snd (planned sel) \<and> lines_created st = length (planned sel)"
      if r: "\<forall>cs s e. host cs s e \<noteq> None"
    proof -
      from process_all_counts [OF pa] r
      have "length (filter is_created (calls st)) = length (filter is_AddLine (calls st))"
        by simp
      then have full: "length (filter id (answered (calls st))) = length (answered (calls st))"
        by (simp add: length_answered)
      from coloured_all [OF b [symmetric] full] c d full b show ?thesis
        by simp
    qed
    from a b c d e show ?thesis by blast
  qed
  have ends: "(\<exists>st'. batch_process host sel = Inr st') \<longleftrightarrow> (\<forall>obj\<in>set sel. \<not> raises obj)"
    by (simp add: batch_process_def process_all_ends)
  from run ends batch_items_planned batch_items_accepted show ?thesis
    by blast
qed

theorem batch_planning_witness:
  "requests
     [Print_call CYLINDER,
      AddLine_call \<lparr>X = 0, Y = 0, Z = 0\<rparr> \<lparr>X = 0, Y = 0, Z = 10\<rparr> None,
      Print_call OTHER_TYPE,
      Print_call CONE,
      AddLine_call \<lparr>X = - (1 / 2), Y = 0, Z = - 2\<rparr> \<lparr>X = - (1 / 2), Y = 0, Z = 3\<rparr> None,
      Print_call OTHER_TYPE] =
     [(\<lparr>X = 0, Y = 0, Z = 0\<rparr>, \<lparr>X = 0, Y = 0, Z = 10\<rparr>),
      (\<lparr>X = - (1 / 2), Y = 0, Z = - 2\<rparr>, \<lparr>X = - (1 / 2), Y = 0, Z = 3\<rparr>)]
   \<and> (\<exists>st'. batch_process refusing_host batch_items = Inr st')
   \<and> \<not> raises (brep_object [cone_face])"
proof -
  let ?log = "[Print_call CYLINDER,
      AddLine_call \<lparr>X = 0, Y = 0, Z = 0\<rparr> \<lparr>X = 0, Y = 0, Z = 10\<rparr> None,
      Print_call OTHER_TYPE,
      Print_call CONE,
      AddLine_call \<lparr>X = - (1 / 2), Y = 0, Z = - 2\<rparr> \<lparr>X = - (1 / 2), Y = 0, Z = 3\<rparr> None,
      Print_call OTHER_TYPE]"
  from batch_planning [where host = refusing_host and sel = batch_items
      and st = "\<lparr>calls = ?log, lines_created = 0\<rparr>"]
    batch_items_refused batch_items_fit_one
  have "requests (calls \<lparr>calls = ?log, lines_created = 0\<rparr>) = map fst (planned batch_items)"
    by blast
  then have a: "requests ?log =
     [(\<lparr>X = 0, Y = 0, Z = 0\<rparr>, \<lparr>X = 0, Y = 0, Z = 10\<rparr>),
      (\<lparr>X = - (1 / 2), Y = 0, Z = - 2\<rparr>, \<lparr>X = - (1 / 2), Y = 0, Z = 3\<rparr>)]"
    by (simp add: batch_items_planned)
  have b: "\<exists>st'. batch_process refusing_host batch_items = Inr st'"
    using batch_items_refused by blast
  with batch_planning [where host = refusing_host and sel = batch_items]
  have "\<forall>obj\<in>set batch_items. \<not> raises obj"
    by blast
  then have c: "\<not> raises (brep_object [cone_face])"
    by (simp add: batch_items_def)
  from a b c show ?thesis by blast
qed

theorem batch_planning_counterexample:
  "batch_process accepting_host
     [surface_object (bare_surface (cylinder_surface 2)), brep_object [plane_face],
      brep_object [cone_face], brep_object [freeform_face]] =
     Inr \<lparr>calls =
            [Print_call CYLINDER,
             Print_call OTHER_TYPE,
             Print_call CONE,
             AddLine_call \<lparr>X = - (1 / 2), Y = 0, Z = - 2\<rparr> \<lparr>X = - (1 / 2), Y = 0, Z = 3\<rparr> (Some 3),
             ObjectColor_call 3 [255, 0, 0],
             Print_call OTHER_TYPE],
          lines_created = 1\<rparr>
   \<and> batch_process refusing_host batch_items =
     Inr \<lparr>calls =
            [Print_call CYLINDER,
             AddLine_call \<lparr>X = 0, Y = 0, Z = 0\<rparr> \<lparr>X = 0, Y = 0, Z = 10\<rparr> None,
             Print_call OTHER_TYPE,
             Print_call CONE,
             AddLine_call \<lparr>X = - (1 / 2), Y = 0, Z = - 2\<rparr> \<lparr>X = - (1 / 2), Y = 0, Z = 3\<rparr> None,
             Print_call OTHER_TYPE],
          lines_created = 0\<rparr>
   \<and> batch_process accepting_host [brep_object [], brep_object [cone_face]] =
     Inl AttributeError"
proof -
  have a: "batch_process accepting_host
     [surface_object (bare_surface (cylinder_surface 2)), brep_object [plane_face],
      brep_object [cone_face], brep_object [freeform_face]] =
     Inr \<lparr>calls =
            [Print_call CYLINDER,
             Print_call OTHER_TYPE,
             Print_call CONE,
             AddLine_call \<lparr>X = - (1 / 2), Y = 0, Z = - 2\<rparr> \<lparr>X = - (1 / 2), Y = 0, Z = 3\<rparr> (Some 3),
             ObjectColor_call 3 [255, 0, 0],
             Print_call OTHER_TYPE],
          lines_created = 1\<rparr>"
    by (simp add: batch_process_def item_bare_cylinder item_cone item_other
        add_colored_line_calls say_calls accepting_host_def)
  have c: "batch_process accepting_host [brep_object [], brep_object [cone_face]] =
     Inl AttributeError"
    by (simp add: batch_process_def process_surface_def brep_object_def coerce_def
        get_surface_batch_def)
  from a batch_items_refused c show ?thesis by blast
qed


section \<open>Surfaces that pass both fits\<close>

text \<open>
  C1. On a face that passes both the cylinder fit and the cone fit the scripts disagree.
  Script 01 tests the cylinder first and counts the face as a cylinder, and script 03
  draws its green cylinder line; script 02 tests the cone first and prints CONE in its
  SUMMARY, and script 04 tests the cone first and draws a red cone line. The
  specification's classifier tags the face Cylinder.
\<close>

theorem classification_precedence_failing_input:
  "TryGetCylinder (UnderlyingSurface cylinder_and_cone_face) \<noteq> None
   \<and> TryGetCone (UnderlyingSurface cylinder_and_cone_face) \<noteq> None
   \<and> spec_classify cylinder_and_cone_face = TagCylinder
   \<and> analyze_brep [brep_object [cylinder_and_cone_face]] =
       Some \<lparr>cylinders = 1, cones = 0, planes = 0, nurbs = 0, others = 0,
             cylinders_above_threshold = 1\<rparr>
   \<and> create_line_cylinder accepting_host [brep_object [cylinder_and_cone_face]] =
       Inr [AddLine_call \<lparr>X = 0, Y = 0, Z = 0\<rparr> \<lparr>X = 0, Y = 0, Z = 10\<rparr> (Some 0),
            ObjectColor_call 0 [0, 255, 0]]
   \<and> check_surface [brep_object [cylinder_and_cone_face]] =
       Inr (Some \<lparr>is_cyl = True, is_cone = True, is_sphere = False, is_planar = False,
                  SUMMARY = CONE\<rparr>)
   \<and> batch_process accepting_host [brep_object [cylinder_and_cone_face]] =
       Inr \<lparr>calls = [Print_call CONE,
                      AddLine_call \<lparr>X = - 2, Y = 0, Z = 5 / 2\<rparr> \<lparr>X = - 2, Y = 0, Z = 15 / 2\<rparr>
                        (Some 1),
                      ObjectColor_call 1 [255, 0, 0]],
            lines_created = 1\<rparr>"
proof -
  let ?s = "UnderlyingSurface cylinder_and_cone_face"
  let ?f = "of_BrepFace cylinder_and_cone_face"
  let ?cyl = "\<lparr>cyl_Radius = 2, cyl_Axis = z_axis, cyl_Center = origin\<rparr>"
  let ?cone = "\<lparr>cone_Radius = 2, cone_AngleInDegrees = 0, cone_ApexPoint = origin,
                cone_Axis = z_axis\<rparr>"
  have a: "TryGetCylinder ?s \<noteq> None" and a': "TryGetCone ?s \<noteq> None"
    and b: "spec_classify cylinder_and_cone_face = TagCylinder"
    by (simp_all add: cylinder_and_cone_face_def spec_classify_def)
  have s01: "analyze_brep [brep_object [cylinder_and_cone_face]] =
       Some \<lparr>cylinders = 1, cones = 0, planes = 0, nurbs = 0, others = 0,
             cylinders_above_threshold = 1\<rparr>"
    by (simp add: analyze_brep_def brep_object_def analyze_faces_fold count_face_def
        zero_counters_def DIAMETER_THRESHOLD_def cylinder_and_cone_face_def)
  have g: "coerce (ObjectType (brep_object [cylinder_and_cone_face]))
      (brep_object [cylinder_and_cone_face]) = Some (GBrep \<lparr>Faces = [cylinder_and_cone_face]\<rparr>)"
    by (rule brep_object_surface)
  have sf3: "get_surface (GBrep \<lparr>Faces = [cylinder_and_cone_face]\<rparr>) = Inr (?s, Some ?f)"
    by (rule brep_object_surface)
  have sf: "get_surface_batch (GBrep \<lparr>Faces = [cylinder_and_cone_face]\<rparr>) = Inr (?s, Some ?f)"
    by (rule brep_object_surface)
  have d: "face_Domain ?f = Some (FaceDomain cylinder_and_cone_face)"
    by (simp add: of_BrepFace_def)
  have cy: "TryGetCylinder ?s = Some ?cyl"
    by (simp add: cylinder_and_cone_face_def)
  have seg: "cylinder_axis_line ?cyl (FaceDomain cylinder_and_cone_face) (face_PointAt ?f) =
      (\<lparr>X = 0, Y = 0, Z = 0\<rparr>, \<lparr>X = 0, Y = 0, Z = 10\<rparr>)"
    by (simp add: cylinder_axis_line_def of_BrepFace_def cylinder_and_cone_face_def pt_sub_def
        pt_add_def vec_mul_def z_axis_def origin_def Let_def)
  have s03: "create_line_cylinder accepting_host [brep_object [cylinder_and_cone_face]] =
       Inr [AddLine_call \<lparr>X = 0, Y = 0, Z = 0\<rparr> \<lparr>X = 0, Y = 0, Z = 10\<rparr> (Some 0),
            ObjectColor_call 0 [0, 255, 0]]"
    using create_line_cylinder_face [OF g sf3 d cy seg, of accepting_host "[]"]
    by (simp add: accepting_host_def)
  have s02: "check_surface [brep_object [cylinder_and_cone_face]] =
       Inr (Some \<lparr>is_cyl = True, is_cone = True, is_sphere = False, is_planar = False,
                  SUMMARY = CONE\<rparr>)"
    by (simp add: check_surface_def brep_object_def coerce_def get_surface_def inspect_def
        of_BrepFace_def cylinder_and_cone_face_def)
  have t: "ObjectType (brep_object [cylinder_and_cone_face]) = 8
      \<or> ObjectType (brep_object [cylinder_and_cone_face]) = 16"
    by (simp add: brep_object_def)
  have k: "TryGetCone ?s = Some ?cone"
    by (simp add: cylinder_and_cone_face_def)
  have line: "cone_axis_line ?cone (Some ?f) =
      (\<lparr>X = - 2, Y = 0, Z = 5 / 2\<rparr>, \<lparr>X = - 2, Y = 0, Z = 15 / 2\<rparr>)"
    by (simp add: cone_axis_line_def of_BrepFace_def cylinder_and_cone_face_def Let_def
        pt_sub_def pt_add_def vec_mul_def z_axis_def)
  have s04: "batch_process accepting_host [brep_object [cylinder_and_cone_face]] =
       Inr \<lparr>calls = [Print_call CONE,
                      AddLine_call \<lparr>X = - 2, Y = 0, Z = 5 / 2\<rparr> \<lparr>X = - 2, Y = 0, Z = 15 / 2\<rparr>
                        (Some 1),
                      ObjectColor_call 1 [255, 0, 0]],
            lines_created = 1\<rparr>"
    by (simp add: batch_process_def process_surface_cone [OF t g sf k] line
        add_colored_line_calls say_def accepting_host_def)
  from a a' b s01 s03 s02 s04 show ?thesis by blast
qed


end
